theory Spec2Isabelle
  imports Main "HOL-Library.AList"
begin

section \<open>The query tree\<close>

text \<open>
  Every query node is a JavaScript object of some subclass of \<open>QueryNode\<close>. The passes of
  \<open>OperationResolver\<close> treat two classes specially (\<open>FlexSearchComplexOperatorQueryNode\<close>
  and \<open>ObjectQueryNode\<close>) and walk every other class by reflection: they enumerate the
  object's own fields (\<open>Object.keys\<close>) and follow exactly those whose value is itself an
  instance of \<open>QueryNode\<close>. A field that holds an array of nodes is not such an instance.

  The expansion pass compares nodes with \<open>!=\<close>, which on objects is reference identity, so
  every node carries its reference (\<open>ref\<close>); \<open>new\<close> and \<open>Object.create\<close> take the next
  unused reference from an allocation counter that is threaded through the pass. No pass
  compares property specifications, so they carry no reference.
\<close>

type_synonym ref = nat

datatype QueryNode =
    FlexSearchComplexOperatorQueryNode ref string string "(string \<times> FieldValue) list"
      \<comment> \<open>reference, \<open>expression\<close>, \<open>flexSearchLanguage\<close>, the remaining own fields\<close>
  | ObjectQueryNode ref "PropertySpecification list"
      \<comment> \<open>reference, \<open>properties\<close>\<close>
  | OtherQueryNode ref string "(string \<times> FieldValue) list"
      \<comment> \<open>a node of any other class: reference, class name, own fields in key order\<close>
and PropertySpecification =
    PropertySpecification string QueryNode
      \<comment> \<open>\<open>propertyName\<close>, \<open>valueNode\<close>\<close>
and FieldValue =
    NodeValue QueryNode
      \<comment> \<open>the field's value is \<open>instanceof QueryNode\<close>\<close>
  | ArrayValue "QueryNode list"
      \<comment> \<open>the field's value is an array of nodes (\<open>QueryNode[]\<close>)\<close>
  | PlainValue string
      \<comment> \<open>anything else: a string, a number, a flag\<close>

fun refOf :: "QueryNode \<Rightarrow> ref" where
  "refOf (FlexSearchComplexOperatorQueryNode r e l fs) = r"
| "refOf (ObjectQueryNode r ps) = r"
| "refOf (OtherQueryNode r c fs) = r"

text \<open>
  \<open>MergeObjectsQueryNode\<close> has the single own field \<open>objectNodes: QueryNode[]\<close>, and no pass
  of the resolver names the class, so it is walked by reflection like any other node.
\<close>

definition MergeObjectsQueryNode :: "ref \<Rightarrow> QueryNode list \<Rightarrow> QueryNode" where
  "MergeObjectsQueryNode r objectNodes =
     OtherQueryNode r ''MergeObjectsQueryNode'' [(''objectNodes'', ArrayValue objectNodes)]"

text \<open>\<open>ObjectQueryNode.EMPTY\<close>, the shared empty object.\<close>

definition EMPTY :: QueryNode where
  "EMPTY = ObjectQueryNode 0 []"

fun isFlexSearchComplexOperatorQueryNode :: "QueryNode \<Rightarrow> bool" where
  "isFlexSearchComplexOperatorQueryNode (FlexSearchComplexOperatorQueryNode r e l fs) = True"
| "isFlexSearchComplexOperatorQueryNode (ObjectQueryNode r ps) = False"
| "isFlexSearchComplexOperatorQueryNode (OtherQueryNode r c fs) = False"

fun isObjectQueryNode :: "QueryNode \<Rightarrow> bool" where
  "isObjectQueryNode (FlexSearchComplexOperatorQueryNode r e l fs) = False"
| "isObjectQueryNode (ObjectQueryNode r ps) = True"
| "isObjectQueryNode (OtherQueryNode r c fs) = False"

text \<open>
  \<open>occursInTree P n\<close>: some node of the tree rooted at \<open>n\<close> satisfies \<open>P\<close>, wherever it is
  held: as a property value, in a node-valued field or inside an array-valued field. This
  is the vocabulary of the specification ("wherever it occurs in the tree"), not a function
  of the program.
\<close>

fun occursInTree :: "(QueryNode \<Rightarrow> bool) \<Rightarrow> QueryNode \<Rightarrow> bool"
and occursInProperties :: "(QueryNode \<Rightarrow> bool) \<Rightarrow> PropertySpecification list \<Rightarrow> bool"
and occursInFields :: "(QueryNode \<Rightarrow> bool) \<Rightarrow> (string \<times> FieldValue) list \<Rightarrow> bool"
and occursInArray :: "(QueryNode \<Rightarrow> bool) \<Rightarrow> QueryNode list \<Rightarrow> bool"
where
  "occursInTree P (FlexSearchComplexOperatorQueryNode r e l fs) =
     (P (FlexSearchComplexOperatorQueryNode r e l fs) \<or> occursInFields P fs)"
| "occursInTree P (ObjectQueryNode r ps) =
     (P (ObjectQueryNode r ps) \<or> occursInProperties P ps)"
| "occursInTree P (OtherQueryNode r c fs) =
     (P (OtherQueryNode r c fs) \<or> occursInFields P fs)"
| "occursInProperties P [] = False"
| "occursInProperties P (PropertySpecification k v # ps) =
     (occursInTree P v \<or> occursInProperties P ps)"
| "occursInFields P [] = False"
| "occursInFields P ((k, NodeValue n) # fs) = (occursInTree P n \<or> occursInFields P fs)"
| "occursInFields P ((k, ArrayValue ns) # fs) = (occursInArray P ns \<or> occursInFields P fs)"
| "occursInFields P ((k, PlainValue s) # fs) = occursInFields P fs"
| "occursInArray P [] = False"
| "occursInArray P (n # ns) = (occursInTree P n \<or> occursInArray P ns)"

section \<open>Tokenization enrichment: collecting the expressions\<close>

record FlexSearchTokenizable =
  expression :: string
  language :: string

text \<open>
  The type \<open>FlexSearchTokenization\<close> is declared in \<open>query-tree/flex-search\<close>, which is not
  among the sources; the resolver only passes these values from the adapter to \<open>expand\<close>.
\<close>

record FlexSearchTokenization = FlexSearchTokenizable +
  tokens :: "string list"

text \<open>
  \<open>collectTokenizations\<close> (the local function of \<open>queryFlexSearchTokens\<close>). The three
  \<open>if\<close>/\<open>for\<close> blocks of the source run one after the other for every node:
  \<^item> a search operator contributes its pair, and then its own fields are walked;
  \<^item> an object node contributes the tokens of its property values; its only own field,
    \<open>properties\<close>, holds an array, so the reflective loop adds nothing;
  \<^item> any other node contributes the tokens of its node-valued fields.
\<close>

fun collectTokenizations :: "QueryNode \<Rightarrow> FlexSearchTokenizable list"
and collectProperties :: "PropertySpecification list \<Rightarrow> FlexSearchTokenizable list"
and collectFields :: "(string \<times> FieldValue) list \<Rightarrow> FlexSearchTokenizable list"
where
  "collectTokenizations (FlexSearchComplexOperatorQueryNode r e l fs) =
     [\<lparr>expression = e, language = l\<rparr>] @ collectFields fs"
| "collectTokenizations (ObjectQueryNode r ps) = collectProperties ps"
| "collectTokenizations (OtherQueryNode r c fs) = collectFields fs"
| "collectProperties [] = []"
| "collectProperties (PropertySpecification k v # ps) =
     collectTokenizations v @ collectProperties ps"
| "collectFields [] = []"
| "collectFields ((field, NodeValue childNode) # fs) =
     collectTokenizations childNode @ collectFields fs"
| "collectFields ((field, ArrayValue ns) # fs) = collectFields fs"
| "collectFields ((field, PlainValue s) # fs) = collectFields fs"

section \<open>Tokenization enrichment: expansion\<close>

text \<open>
  \<open>Object.assign(newObj, queryNode, newFieldValues)\<close>: the own fields of the old node, with
  the changed ones replaced.
\<close>

definition assign ::
  "(string \<times> FieldValue) list \<Rightarrow> (string \<times> QueryNode) list \<Rightarrow> (string \<times> FieldValue) list" where
  "assign fs newFieldValues =
     map (\<lambda>(field, v). case map_of newFieldValues field of
                          Some newValue \<Rightarrow> (field, NodeValue newValue)
                        | None \<Rightarrow> (field, v)) fs"

text \<open>
  \<open>expandQueryNode\<close>. The method \<open>expand\<close> of a search operator is not among the sources and
  is a parameter \<open>X\<close>: given the tokenizations, the operator node and the allocation counter
  it returns the replacement node and the counter after its own allocations. The last
  argument and the second component of the result are the allocation counter.
  \<open>expandFields\<close> is the \<open>for\<close> loop over \<open>Object.keys(queryNode)\<close>; it returns
  \<open>newFieldValues\<close> and \<open>hasChanged\<close>.
\<close>

type_synonym expandMethod =
  "FlexSearchTokenization list \<Rightarrow> QueryNode \<Rightarrow> ref \<Rightarrow> QueryNode \<times> ref"

fun expandQueryNode ::
  "expandMethod \<Rightarrow> FlexSearchTokenization list \<Rightarrow> QueryNode \<Rightarrow> ref \<Rightarrow> QueryNode \<times> ref"
and expandProperties ::
  "expandMethod \<Rightarrow> FlexSearchTokenization list \<Rightarrow> PropertySpecification list \<Rightarrow> ref
     \<Rightarrow> PropertySpecification list \<times> ref"
and expandFields ::
  "expandMethod \<Rightarrow> FlexSearchTokenization list \<Rightarrow> (string \<times> FieldValue) list \<Rightarrow> ref
     \<Rightarrow> ((string \<times> QueryNode) list \<times> bool) \<times> ref"
where
  "expandQueryNode X tokenizations (FlexSearchComplexOperatorQueryNode r e l fs) h =
     X tokenizations (FlexSearchComplexOperatorQueryNode r e l fs) h"
| "expandQueryNode X tokenizations (ObjectQueryNode r ps) h =
     (case expandProperties X tokenizations ps h of
        (specs, h') \<Rightarrow> (ObjectQueryNode h' specs, Suc h'))"
| "expandQueryNode X tokenizations (OtherQueryNode r c fs) h =
     (case expandFields X tokenizations fs h of
        ((newFieldValues, hasChanged), h') \<Rightarrow>
          if \<not> hasChanged then (OtherQueryNode r c fs, h')
          else (OtherQueryNode h' c (assign fs newFieldValues), Suc h'))"
| "expandProperties X tokenizations [] h = ([], h)"
| "expandProperties X tokenizations (PropertySpecification k v # ps) h =
     (case expandQueryNode X tokenizations v h of
        (expandedValueNode, h1) \<Rightarrow>
          (case expandProperties X tokenizations ps h1 of
             (specs, h2) \<Rightarrow> (PropertySpecification k expandedValueNode # specs, h2)))"
| "expandFields X tokenizations [] h = (([], False), h)"
| "expandFields X tokenizations ((field, NodeValue oldValue) # fs) h =
     (case expandQueryNode X tokenizations oldValue h of
        (newValue, h1) \<Rightarrow>
          (case expandFields X tokenizations fs h1 of
             ((newFieldValues, hasChanged), h2) \<Rightarrow>
               if refOf newValue \<noteq> refOf oldValue
               then (((field, newValue) # newFieldValues, True), h2)
               else ((newFieldValues, hasChanged), h2)))"
| "expandFields X tokenizations ((field, ArrayValue ns) # fs) h =
     expandFields X tokenizations fs h"
| "expandFields X tokenizations ((field, PlainValue s) # fs) h =
     expandFields X tokenizations fs h"

text \<open>
  The resolver starts the allocation counter at the first reference that no node of the
  tree uses, so that every node the pass creates is a new object.
\<close>

fun maxRef :: "QueryNode \<Rightarrow> ref"
and maxRefProperties :: "PropertySpecification list \<Rightarrow> ref"
and maxRefFields :: "(string \<times> FieldValue) list \<Rightarrow> ref"
and maxRefArray :: "QueryNode list \<Rightarrow> ref"
where
  "maxRef (FlexSearchComplexOperatorQueryNode r e l fs) = max r (maxRefFields fs)"
| "maxRef (ObjectQueryNode r ps) = max r (maxRefProperties ps)"
| "maxRef (OtherQueryNode r c fs) = max r (maxRefFields fs)"
| "maxRefProperties [] = 0"
| "maxRefProperties (PropertySpecification k v # ps) = max (maxRef v) (maxRefProperties ps)"
| "maxRefFields [] = 0"
| "maxRefFields ((k, NodeValue n) # fs) = max (maxRef n) (maxRefFields fs)"
| "maxRefFields ((k, ArrayValue ns) # fs) = max (maxRefArray ns) (maxRefFields fs)"
| "maxRefFields ((k, PlainValue s) # fs) = maxRefFields fs"
| "maxRefArray [] = 0"
| "maxRefArray (n # ns) = max (maxRef n) (maxRefArray ns)"

definition freshRef :: "QueryNode \<Rightarrow> ref" where
  "freshRef queryTree = Suc (maxRef queryTree)"

section \<open>The operation resolver\<close>

subsection \<open>Values, options and results\<close>

text \<open>
  A JavaScript value (\<open>AnyValue\<close>). \<open>Scalar\<close> is a number, written as its literal. An
  object has its own enumerable properties, in key order, and the properties it inherits
  through its prototype chain (none for an object created with a null prototype); a
  function is known by the properties that can be read from it, none of them enumerable.
  A promise is an object like any other.
\<close>

datatype AnyValue =
    Undefined
  | Null
  | Scalar string
  | StringValue string
  | BooleanValue bool
  | Array "AnyValue list"
  | Object "(string \<times> AnyValue) list" "(string \<times> AnyValue) list"
  | FunctionValue "(string \<times> AnyValue) list"

type_synonym PlainObject = "(string \<times> AnyValue) list"

text \<open>
  \<open>Error\<close> is an \<open>Error\<close> object with its message; \<open>TypeError\<close> is the engine's own
  error, whose message is the engine's.
\<close>

datatype Error =
    Error string
  | TypeError string

text \<open>
  \<open>ExecutionOptions\<close>: the options the resolver reads. The two flags are only tested for
  truthiness, so an absent flag is \<open>False\<close>.
\<close>

record ExecutionOptions =
  recordPlan :: bool
  recordTimings :: bool
  mutationMode :: "string option"
  authRoles :: "string list option"
  flexSearchMaxFilterableAndSortableAmount :: "nat option"
  flexSearchRecursionDepth :: "nat option"

text \<open>The options object \<open>{}\<close>.\<close>

definition noOptions :: ExecutionOptions where
  "noOptions = \<lparr>recordPlan = False, recordTimings = False, mutationMode = None,
     authRoles = None, flexSearchMaxFilterableAndSortableAmount = None,
     ExecutionOptions.flexSearchRecursionDepth = None\<rparr>"

text \<open>
  \<open>OperationParams\<close>: the resolver reads \<open>operation.operation\<close> and passes the rest on
  (\<open>requestData\<close> stands for \<open>variableValues\<close>, \<open>fragments\<close> and \<open>schema\<close>).
\<close>

record OperationDefinitionNode =
  operation :: string
  selectionSet :: string

record OperationParams =
  operation :: OperationDefinitionNode
  "context" :: string
  requestData :: string

type_synonym DistilledOperation = string
type_synonym QueryNodeObjectType = string

record FieldContext =
  selectionStack :: "string list"
  flexSearchMaxFilterableAmountOverride :: "nat option"
  flexSearchRecursionDepth :: "nat option"

text \<open>
  What \<open>executeExt\<close> resolves to. Plan, statistics and adapter timings are opaque to the
  resolver.
\<close>

record AdapterExecutionResult =
  data :: AnyValue
  error :: "Error option"
  timings :: "string list option"
  plan :: "string option"
  stats :: "string list option"

text \<open>
  \<open>RequestProfile\<close>. The durations are differences of wall-clock readings and are not
  modelled: \<open>preparation\<close> lists the phases for which the resolver's \<open>Watch\<close> took a sample
  (the keys it spreads into \<open>timings.preparation\<close>), \<open>adapterTimings\<close> is the adapter's own
  timing record, from which the remaining entries of \<open>timings\<close> are read, and \<open>request\<close>
  stands for the fields copied from \<open>operationInfo\<close>.
\<close>

record RequestProfile =
  preparation :: "string list"
  adapterTimings :: "string list option"
  plan :: "string option"
  stats :: "string list"
  request :: OperationParams

record ExecutionResult =
  data :: AnyValue
  error :: "Error option"
  profile :: "RequestProfile option"

subsection \<open>Collaborators\<close>

text \<open>
  None of the functions the resolver calls is among the sources; each is a parameter. A
  call that throws returns \<open>Inl\<close>, and so does an awaited call whose promise rejects
  (\<open>tokenizeExpressions\<close>, \<open>executeExt\<close>). The value of \<open>execute\<close> is not awaited: whatever
  \<open>execute\<close> returns, a promise included, is \<open>Inr\<close> of that value, and only a throw during
  the call itself is \<open>Inl\<close>. \<open>expand\<close> and \<open>getExecutionOptions\<close> are taken to return
  normally.
\<close>

record DatabaseAdapter =
  tokenizeExpressions :: "FlexSearchTokenizable list \<Rightarrow> Error + FlexSearchTokenization list"
  executeExt :: "(QueryNode \<Rightarrow> ExecutionOptions \<Rightarrow> Error + AdapterExecutionResult) option"
  execute :: "QueryNode \<Rightarrow> Error + AnyValue"

record SchemaTransformationContext =
  profileConsumer :: bool
  getExecutionOptions :: "(string \<Rightarrow> OperationDefinitionNode \<Rightarrow> ExecutionOptions) option"
  databaseAdapter :: DatabaseAdapter

record Collaborators =
  distillOperation :: "OperationParams \<Rightarrow> Error + DistilledOperation"
  buildConditionalObjectQueryNode ::
    "QueryNode \<Rightarrow> QueryNodeObjectType \<Rightarrow> DistilledOperation \<Rightarrow> FieldContext \<Rightarrow> Error + QueryNode"
  expand :: expandMethod
  applyAuthorizationToQueryTree :: "QueryNode \<Rightarrow> string list \<Rightarrow> Error + QueryNode"
  evaluateQueryStatically :: "QueryNode \<Rightarrow> Error + bool \<times> AnyValue"

subsection \<open>Observable state\<close>

text \<open>
  What a request leaves behind: the context registered in \<open>globalContext\<close>, and the calls
  made to the collaborators, oldest first.

  Modelled from the spec: \<open>globalContext\<close> (\<open>config/global\<close>) is not among the sources. The
  spec describes a scoped registration: \<open>registerContext\<close> makes the resolver's context the
  registered one, \<open>unregisterContext\<close> leaves none registered.
\<close>

datatype Call =
    DistillOperation
  | BuildConditionalObjectQueryNode
  | TokenizeExpressions "FlexSearchTokenizable list"
  | ApplyAuthorizationToQueryTree QueryNode
  | EvaluateQueryStatically QueryNode
  | ExecuteExt QueryNode
  | Execute QueryNode

record World =
  registeredContext :: "SchemaTransformationContext option"
  calls :: "Call list"

definition registerContext :: "SchemaTransformationContext \<Rightarrow> World \<Rightarrow> World" where
  "registerContext ctx w = w\<lparr>registeredContext := Some ctx\<rparr>"

definition unregisterContext :: "World \<Rightarrow> World" where
  "unregisterContext w = w\<lparr>registeredContext := None\<rparr>"

definition called :: "Call \<Rightarrow> World \<Rightarrow> World" where
  "called c w = w\<lparr>calls := calls w @ [c]\<rparr>"

text \<open>
  Modelled from the spec: the class \<open>Watch\<close> (\<open>utils/watch\<close>) is not among the sources; the
  spec has it collect one elapsed-time sample per phase. A watch is the list of the labels
  it was stopped at, and \<open>if (watch) watch.stop(label)\<close> is \<open>stop label watch\<close>.
\<close>

type_synonym Watch = "string list"

definition stop :: "string \<Rightarrow> Watch option \<Rightarrow> Watch option" where
  "stop label watch = map_option (\<lambda>samples. samples @ [label]) watch"

subsection \<open>The resolver's methods\<close>

text \<open>
  The calls of the logger do not take part in the result and are left out, as are the
  readings of the clock (see \<open>RequestProfile\<close>).
\<close>

text \<open>\<open>queryFlexSearchTokens\<close>: collect, then one call of the adapter.\<close>

definition queryFlexSearchTokens ::
  "QueryNode \<Rightarrow> DatabaseAdapter \<Rightarrow> World \<Rightarrow> World \<times> (Error + FlexSearchTokenization list)" where
  "queryFlexSearchTokens queryTree adapter w =
     (let tokenizations = collectTokenizations queryTree
      in (called (TokenizeExpressions tokenizations) w,
          tokenizeExpressions adapter tokenizations))"

text \<open>
  The body of the \<open>try\<close> block of \<open>resolveOperation\<close>: distillation, tree building,
  tokenization, expansion, authorization. It returns the authorized tree and the watch.
\<close>

definition prepareQueryTree ::
  "Collaborators \<Rightarrow> SchemaTransformationContext \<Rightarrow> OperationParams \<Rightarrow> QueryNodeObjectType
     \<Rightarrow> ExecutionOptions \<Rightarrow> Watch option \<Rightarrow> World
     \<Rightarrow> World \<times> (Error + QueryNode \<times> Watch option)" where
  "prepareQueryTree C ctx operationInfo rootType options watch w =
     (let requestRoles = (case authRoles options of Some roles \<Rightarrow> roles | None \<Rightarrow> []);
          w1 = called DistillOperation w
      in case distillOperation C operationInfo of
           Inl e \<Rightarrow> (w1, Inl e)
         | Inr distilled \<Rightarrow>
             let watch1 = stop ''distillation'' watch;
                 rootQueryNode = EMPTY;
                 fieldContext = \<lparr>selectionStack = [],
                   flexSearchMaxFilterableAmountOverride =
                     flexSearchMaxFilterableAndSortableAmount options,
                   flexSearchRecursionDepth =
                     ExecutionOptions.flexSearchRecursionDepth options\<rparr>;
                 w2 = called BuildConditionalObjectQueryNode w1
             in case buildConditionalObjectQueryNode C rootQueryNode rootType distilled
                       fieldContext of
                  Inl e \<Rightarrow> (w2, Inl e)
                | Inr queryTree \<Rightarrow>
                    (case queryFlexSearchTokens queryTree (databaseAdapter ctx) w2 of
                       (w3, Inl e) \<Rightarrow> (w3, Inl e)
                     | (w3, Inr tokenizations) \<Rightarrow>
                         let expanded = fst (expandQueryNode (expand C) tokenizations queryTree
                                               (freshRef queryTree));
                             watch2 = stop ''queryTree'' watch1;
                             w4 = called (ApplyAuthorizationToQueryTree expanded) w3
                         in case applyAuthorizationToQueryTree C expanded requestRoles of
                              Inl e \<Rightarrow> (w4, Inl e)
                            | Inr authorized \<Rightarrow>
                                (w4, Inr (authorized, stop ''authorization'' watch2))))"

text \<open>
  The end of \<open>resolveOperation\<close>: the profile, built when both watches exist (which is when
  \<open>start\<close> is defined), and the result envelope. \<open>res\<close> holds what the backend returned; on
  the paths that do not call \<open>executeExt\<close> all its fields but \<open>data\<close> are undefined.
\<close>

definition assembleResult ::
  "OperationParams \<Rightarrow> Watch option \<Rightarrow> Watch option \<Rightarrow> AdapterExecutionResult
     \<Rightarrow> ExecutionResult" where
  "assembleResult operationInfo watch topLevelWatch res =
     \<lparr>ExecutionResult.data = AdapterExecutionResult.data res,
      error = AdapterExecutionResult.error res,
      profile =
        (case watch of
           None \<Rightarrow> None
         | Some samples \<Rightarrow>
             (case topLevelWatch of
                None \<Rightarrow> None
              | Some topLevelSamples \<Rightarrow>
                  Some \<lparr>preparation = samples @ [''total''],
                        adapterTimings = AdapterExecutionResult.timings res,
                        plan = AdapterExecutionResult.plan res,
                        stats = (case AdapterExecutionResult.stats res of
                                   Some s \<Rightarrow> s | None \<Rightarrow> []),
                        request = operationInfo\<rparr>))\<rparr>"

text \<open>
  The part of \<open>resolveOperation\<close> after the \<open>finally\<close> block: static evaluation and, when
  the tree is not reducible, the backend call.
\<close>

definition executeQueryTree ::
  "Collaborators \<Rightarrow> SchemaTransformationContext \<Rightarrow> OperationParams \<Rightarrow> ExecutionOptions
     \<Rightarrow> QueryNode \<Rightarrow> Watch option \<Rightarrow> Watch option \<Rightarrow> World
     \<Rightarrow> World \<times> (Error + ExecutionResult)" where
  "executeQueryTree C ctx operationInfo options queryTree watch topLevelWatch w =
     (let w1 = called (EvaluateQueryStatically queryTree) w
      in case evaluateQueryStatically C queryTree of
           Inl e \<Rightarrow> (w1, Inl e)
         | Inr (canEvaluateStatically, staticResult) \<Rightarrow>
             let timed = (watch \<noteq> None \<and> topLevelWatch \<noteq> None);
                 watch1 = (if timed then stop ''staticEvaluation'' watch else watch);
                 topLevelWatch1 =
                   (if timed then stop ''preparation'' topLevelWatch else topLevelWatch)
             in if \<not> canEvaluateStatically then
                  (case executeExt (databaseAdapter ctx) of
                     Some executeExtMethod \<Rightarrow>
                       (let w2 = called (ExecuteExt queryTree) w1
                        in case executeExtMethod queryTree options of
                             Inl e \<Rightarrow> (w2, Inl e)
                           | Inr res \<Rightarrow>
                               (w2, Inr (assembleResult operationInfo watch1
                                  (stop ''database'' topLevelWatch1) res)))
                   | None \<Rightarrow>
                       (let w2 = called (Execute queryTree) w1
                        in case execute (databaseAdapter ctx) queryTree of
                             Inl e \<Rightarrow> (w2, Inl e)
                           | Inr d \<Rightarrow>
                               (w2, Inr (assembleResult operationInfo watch1
                                  (stop ''database'' topLevelWatch1)
                                  \<lparr>AdapterExecutionResult.data = d, error = None,
                                   timings = None, plan = None, stats = None\<rparr>))))
                else
                  (w1, Inr (assembleResult operationInfo watch1 topLevelWatch1
                     \<lparr>AdapterExecutionResult.data = staticResult, error = None,
                      timings = None, plan = None, stats = None\<rparr>)))"

text \<open>
  The options of a request: the ones passed in, else the ones the context supplies, else
  \<open>{}\<close>.
\<close>

definition executionOptions ::
  "SchemaTransformationContext \<Rightarrow> OperationParams \<Rightarrow> ExecutionOptions option
     \<Rightarrow> ExecutionOptions" where
  "executionOptions ctx operationInfo optionsArg =
     (case optionsArg of
        Some given \<Rightarrow> given
      | None \<Rightarrow>
          (case getExecutionOptions ctx of
             Some getOptions \<Rightarrow>
               getOptions (context operationInfo) (OperationParams.operation operationInfo)
           | None \<Rightarrow> noOptions))"

definition needsTimings :: "SchemaTransformationContext \<Rightarrow> ExecutionOptions \<Rightarrow> bool" where
  "needsTimings ctx options = (profileConsumer ctx \<or> recordPlan options \<or> recordTimings options)"

text \<open>
  \<open>resolveOperation\<close>. The write guard throws before the \<open>try\<close> statement is entered; an
  error raised inside the \<open>try\<close> block passes through the \<open>finally\<close> block, which runs on
  the normal exit as well.
\<close>

definition resolveOperation ::
  "Collaborators \<Rightarrow> SchemaTransformationContext \<Rightarrow> OperationParams \<Rightarrow> QueryNodeObjectType
     \<Rightarrow> ExecutionOptions option \<Rightarrow> World \<Rightarrow> World \<times> (Error + ExecutionResult)" where
  "resolveOperation C ctx operationInfo rootType optionsArg w =
     (let w1 = registerContext ctx w;
          options = executionOptions ctx operationInfo optionsArg;
          watch = (if needsTimings ctx options then Some [] else None);
          topLevelWatch = (if needsTimings ctx options then Some [] else None)
      in if OperationDefinitionNode.operation (OperationParams.operation operationInfo)
              = ''mutation'' \<and> mutationMode options = Some ''disallowed''
         then (w1, Inl (Error ''Mutations are not allowed''))
         else
           (case prepareQueryTree C ctx operationInfo rootType options watch w1 of
              (w2, Inl e) \<Rightarrow> (unregisterContext w2, Inl e)
            | (w2, Inr (queryTree, watch1)) \<Rightarrow>
                executeQueryTree C ctx operationInfo options queryTree watch1 topLevelWatch
                  (unregisterContext w2)))"

section \<open>Create input types\<close>

text \<open>
  The class \<open>Field\<close> of the model is not among the sources; these are the members the
  create input types read. A \<open>Set<Field>\<close> compares fields by reference: a field is one
  object per declaring type and name, so \<open>declaringType\<close> is part of the record.
\<close>

record Field =
  declaringType :: string
  name :: string
  hasDefaultValue :: bool
  defaultValue :: AnyValue

text \<open>
  The three classes of create input types differ only in \<open>getAdditionalProperties\<close>. The
  generator builds the field list of a type eagerly from the fields of nested types, so an
  input type is a finite tree.
\<close>

datatype CreateObjectInputClass =
    CreateObjectInput
  | CreateRootEntityInput
  | CreateChildEntityInput

datatype CreateInputField =
    BasicCreateInputField Field
  | BasicListCreateInputField Field
  | ObjectCreateInputField Field CreateObjectInputType
  | ObjectListCreateInputField Field CreateObjectInputType
and CreateObjectInputType =
    CreateObjectInputType CreateObjectInputClass string "CreateInputField list"
      \<comment> \<open>class, \<open>name\<close>, \<open>fields\<close>\<close>

fun field :: "CreateInputField \<Rightarrow> Field" where
  "field (BasicCreateInputField f) = f"
| "field (BasicListCreateInputField f) = f"
| "field (ObjectCreateInputField f objectInputType) = f"
| "field (ObjectListCreateInputField f objectInputType) = f"

fun fields :: "CreateObjectInputType \<Rightarrow> CreateInputField list" where
  "fields (CreateObjectInputType cls typeName fs) = fs"

text \<open>
  The list-valued input fields, and the fields of the input types nested below a field or
  in a type (with the type's own), are vocabulary for stating properties.
\<close>

fun isListField :: "CreateInputField \<Rightarrow> bool" where
  "isListField (BasicCreateInputField f) = False"
| "isListField (BasicListCreateInputField f) = True"
| "isListField (ObjectCreateInputField f objectInputType) = False"
| "isListField (ObjectListCreateInputField f objectInputType) = True"


fun appliesToMissingFields :: "CreateInputField \<Rightarrow> bool" where
  "appliesToMissingFields f = hasDefaultValue (field f)"

text \<open>
  The constants of \<open>schema/schema-defaults\<close>, the clock reading of \<open>getCurrentISODate\<close> and
  the identifier drawn by \<open>uuid\<close> are parameters. One reading and one identifier serve a
  whole call of \<open>prepareValue\<close>; the properties stated below do not depend on them. So are
  the members an object literal inherits (\<open>Object.prototype\<close>) and the members an array
  inherits (\<open>Array.prototype\<close> and, behind it, \<open>Object.prototype\<close>), which depend on the
  engine.
\<close>

record Runtime =
  ID_FIELD :: string
  ENTITY_CREATED_AT :: string
  ENTITY_UPDATED_AT :: string
  currentISODate :: string
  uuid :: string
  objectPrototype :: "(string \<times> AnyValue) list"
  arrayPrototype :: "(string \<times> AnyValue) list"

fun getAdditionalProperties :: "Runtime \<Rightarrow> CreateObjectInputClass \<Rightarrow> PlainObject" where
  "getAdditionalProperties R CreateObjectInput = []"
| "getAdditionalProperties R CreateRootEntityInput =
     [(ENTITY_CREATED_AT R, StringValue (currentISODate R)),
      (ENTITY_UPDATED_AT R, StringValue (currentISODate R))]"
| "getAdditionalProperties R CreateChildEntityInput =
     [(ID_FIELD R, StringValue (uuid R)),
      (ENTITY_CREATED_AT R, StringValue (currentISODate R)),
      (ENTITY_UPDATED_AT R, StringValue (currentISODate R))]"

subsection \<open>Properties of a value\<close>

text \<open>The decimal name of an array index.\<close>

definition digitChar :: "nat \<Rightarrow> char" where
  "digitChar n = ''0123456789'' ! n"

function decimal :: "nat \<Rightarrow> string" where
  "decimal n = (if n < 10 then [digitChar n] else decimal (n div 10) @ [digitChar (n mod 10)])"
  by pat_completeness auto

termination
  by (relation "measure (\<lambda>n. n)") auto

declare decimal.simps [simp del]

text \<open>
  \<open>undefined\<close>, \<open>null\<close> and the primitives are not objects: \<open>name in value\<close> throws a
  \<open>TypeError\<close> on them. \<open>typeof\<close> is as in the language.
\<close>

fun isObjectValue :: "AnyValue \<Rightarrow> bool" where
  "isObjectValue (Array items) = True"
| "isObjectValue (Object own inherited) = True"
| "isObjectValue (FunctionValue members) = True"
| "isObjectValue v = False"

fun typeof :: "AnyValue \<Rightarrow> string" where
  "typeof Undefined = ''undefined''"
| "typeof Null = ''object''"
| "typeof (Scalar n) = ''number''"
| "typeof (StringValue s) = ''string''"
| "typeof (BooleanValue b) = ''boolean''"
| "typeof (Array items) = ''object''"
| "typeof (Object own inherited) = ''object''"
| "typeof (FunctionValue members) = ''function''"

text \<open>
  The own enumerable properties of a value (what \<open>toPairs\<close> lists), and the properties that
  \<open>in\<close> and \<open>value[name]\<close> find beyond them: the inherited ones and, for an array, its
  \<open>length\<close>.
\<close>

fun ownProperties :: "AnyValue \<Rightarrow> (string \<times> AnyValue) list" where
  "ownProperties (Object own inherited) = own"
| "ownProperties (Array items) = zip (map decimal [0..<length items]) items"
| "ownProperties v = []"

fun hiddenProperties :: "Runtime \<Rightarrow> AnyValue \<Rightarrow> (string \<times> AnyValue) list" where
  "hiddenProperties R (Object own inherited) = inherited"
| "hiddenProperties R (Array items) =
     (''length'', Scalar (decimal (length items))) # arrayPrototype R"
| "hiddenProperties R (FunctionValue members) = members"
| "hiddenProperties R v = []"

text \<open>
  \<open>name in value\<close> and \<open>value[name]\<close> on an object: an own property first, then the
  prototype chain.
\<close>

definition hasProperty :: "Runtime \<Rightarrow> string \<Rightarrow> AnyValue \<Rightarrow> bool" where
  "hasProperty R k value = (k \<in> set (map fst (ownProperties value @ hiddenProperties R value)))"

definition getProperty :: "Runtime \<Rightarrow> AnyValue \<Rightarrow> string \<Rightarrow> AnyValue" where
  "getProperty R value k =
     (case map_of (ownProperties value @ hiddenProperties R value) k of
        Some v \<Rightarrow> v
      | None \<Rightarrow> Undefined)"

text \<open>
  lodash's \<open>fromPairs\<close> starts from \<open>{}\<close> and assigns \<open>result[key] = value\<close> pair by pair: a
  later pair overwrites an earlier one with the same key, a new key is added at the end.
  An assignment to \<open>__proto__\<close> creates no property: it replaces the prototype when the
  value is an object or \<open>null\<close> and does nothing otherwise. The state of the loop is the
  pair of the own and the inherited properties of \<open>result\<close>.
\<close>

fun setProperty ::
  "Runtime \<Rightarrow> PlainObject \<times> PlainObject \<Rightarrow> string \<times> AnyValue \<Rightarrow> PlainObject \<times> PlainObject" where
  "setProperty R (own, inherited) (k, v) =
     (if k = ''__proto__'' then
        (if v = Null then (own, [])
         else if isObjectValue v then (own, ownProperties v @ hiddenProperties R v)
         else (own, inherited))
      else (AList.update k v own, inherited))"

definition fromPairs :: "Runtime \<Rightarrow> (string \<times> AnyValue) list \<Rightarrow> AnyValue" where
  "fromPairs R pairs =
     (case foldl (setProperty R) ([], objectPrototype R) pairs of
        (own, inherited) \<Rightarrow> Object own inherited)"

definition quoted :: "string \<Rightarrow> string" where
  "quoted s = CHR 0x22 # s @ [CHR 0x22]"

definition notAnArray :: "string \<Rightarrow> AnyValue \<Rightarrow> Error" where
  "notAnArray fieldName value =
     Error (''Expected value for '' @ quoted fieldName @ '' to be an array, but is ''
            @ quoted (typeof value))"

definition notAnObject :: Error where
  "notAnObject = TypeError ''Cannot use in operator''"

subsection \<open>Preparing a value\<close>

text \<open>
  \<open>prepareValue\<close> of \<open>CreateObjectInputType\<close>, with \<open>getProperties\<close> and \<open>coerceValue\<close> of
  the four field classes. \<open>getApplicableInputFields\<close> evaluates \<open>field.name in value\<close> for
  the first field before anything else, which throws when \<open>value\<close> is not an object; a type
  without fields never looks at \<open>value\<close>. \<open>applicableProperties\<close> is the \<open>flatMap\<close> over the
  applicable fields: a field that is not applicable contributes no pair. \<open>prepareValues\<close> is
  \<open>value.map(value => this.objectInputType.prepareValue(value))\<close>.
\<close>

function (sequential) prepareValue :: "Runtime \<Rightarrow> CreateObjectInputType \<Rightarrow> AnyValue \<Rightarrow> Error + AnyValue"
and applicableProperties ::
  "Runtime \<Rightarrow> CreateInputField list \<Rightarrow> AnyValue \<Rightarrow> Error + (string \<times> AnyValue) list"
and getProperties :: "Runtime \<Rightarrow> CreateInputField \<Rightarrow> AnyValue \<Rightarrow> Error + PlainObject"
and coerceValue :: "Runtime \<Rightarrow> CreateInputField \<Rightarrow> AnyValue \<Rightarrow> Error + AnyValue"
and prepareValues :: "Runtime \<Rightarrow> CreateObjectInputType \<Rightarrow> AnyValue list \<Rightarrow> Error + AnyValue list"
where
  "prepareValue R (CreateObjectInputType cls typeName fs) value =
     (if fs \<noteq> [] \<and> \<not> isObjectValue value then Inl notAnObject
      else
        (case applicableProperties R fs value of
           Inl e \<Rightarrow> Inl e
         | Inr properties \<Rightarrow> Inr (fromPairs R (properties @ getAdditionalProperties R cls))))"
| "applicableProperties R [] value = Inr []"
| "applicableProperties R (f # fs) value =
     (if hasProperty R (name (field f)) value \<or> appliesToMissingFields f then
        (case getProperties R f (getProperty R value (name (field f))) of
           Inl e \<Rightarrow> Inl e
         | Inr pairs \<Rightarrow>
             (case applicableProperties R fs value of
                Inl e \<Rightarrow> Inl e
              | Inr rest \<Rightarrow> Inr (pairs @ rest)))
      else applicableProperties R fs value)"
| "getProperties R f value =
     (case coerceValue R f
             (if value = Undefined \<and> hasDefaultValue (field f)
              then defaultValue (field f) else value) of
        Inl e \<Rightarrow> Inl e
      | Inr coerced \<Rightarrow> Inr [(name (field f), coerced)])"
| "coerceValue R (BasicCreateInputField f) value = Inr value"
| "coerceValue R (BasicListCreateInputField f) value =
     (if value = Null then Inr (Array []) else Inr value)"
| "coerceValue R (ObjectCreateInputField f objectInputType) value =
     (if value = Undefined \<or> value = Null then Inr value
      else prepareValue R objectInputType value)"
| "coerceValue R (ObjectListCreateInputField f objectInputType) value =
     (if value = Null then Inr (Array [])
      else if value = Undefined then Inr Undefined
      else
        (case value of
           Array items \<Rightarrow>
             (case prepareValues R objectInputType items of
                Inl e \<Rightarrow> Inl e
              | Inr prepared \<Rightarrow> Inr (Array prepared))
         | _ \<Rightarrow> Inl (notAnArray (name f) value)))"
| "prepareValues R objectInputType [] = Inr []"
| "prepareValues R objectInputType (item # items) =
     (case prepareValue R objectInputType item of
        Inl e \<Rightarrow> Inl e
      | Inr prepared \<Rightarrow>
          (case prepareValues R objectInputType items of
             Inl e \<Rightarrow> Inl e
           | Inr rest \<Rightarrow> Inr (prepared # rest)))"
  by pat_completeness auto

termination
  by (relation "measures
        [case_sum (case_sum (\<lambda>(R, T, v). size T) (\<lambda>(R, fs, v). size_list size fs))
           (case_sum (\<lambda>(R, f, v). size f)
              (case_sum (\<lambda>(R, f, v). size f) (\<lambda>(R, T, vs). size T))),
         case_sum (case_sum (\<lambda>_. 0) (\<lambda>_. 0))
           (case_sum (\<lambda>_. 2) (case_sum (\<lambda>_. 1) (\<lambda>_. 1))),
         case_sum (case_sum (\<lambda>_. 0) (\<lambda>_. 0))
           (case_sum (\<lambda>_. 0) (case_sum (\<lambda>_. 0) (\<lambda>(R, T, vs). length vs)))]")
     auto

subsection \<open>Affected fields\<close>

text \<open>A \<open>Set<Field>\<close> in insertion order, and its \<open>add\<close>.\<close>

definition add :: "Field \<Rightarrow> Field list \<Rightarrow> Field list" where
  "add f affected = (if f \<in> set affected then affected else affected @ [f])"



subsection \<open>Vocabulary for the properties of create input types\<close>

text \<open>
  The field names of a type and of every type nested in it are distinct, as they are in a
  schema.
\<close>

fun distinctNames :: "CreateObjectInputType \<Rightarrow> bool"
and distinctNested :: "CreateInputField list \<Rightarrow> bool"
and distinctBelow :: "CreateInputField \<Rightarrow> bool"
where
  "distinctNames (CreateObjectInputType cls typeName fs) =
     (distinct (map (\<lambda>g. name (field g)) fs) \<and> distinctNested fs)"
| "distinctNested [] = True"
| "distinctNested (f # fs) = (distinctBelow f \<and> distinctNested fs)"
| "distinctBelow (BasicCreateInputField f) = True"
| "distinctBelow (BasicListCreateInputField f) = True"
| "distinctBelow (ObjectCreateInputField f objectInputType) = distinctNames objectInputType"
| "distinctBelow (ObjectListCreateInputField f objectInputType) = distinctNames objectInputType"

text \<open>
  \<open>listsNotNull T v\<close>: the value \<open>v\<close>, read as an object of type \<open>T\<close>, holds \<open>null\<close> under no
  list-valued field, at any depth: not under a list field of \<open>T\<close>, not in the object under
  an object field of \<open>T\<close>, not in an item of the list under an object-list field of \<open>T\<close>.
  \<open>fieldNotNull f x\<close> says so of the own property \<open>x\<close> found under the name of \<open>f\<close> (\<open>None\<close>
  when there is none).
\<close>

function (sequential) listsNotNull :: "CreateObjectInputType \<Rightarrow> AnyValue \<Rightarrow> bool"
and fieldsNotNull :: "CreateInputField list \<Rightarrow> AnyValue \<Rightarrow> bool"
and fieldNotNull :: "CreateInputField \<Rightarrow> AnyValue option \<Rightarrow> bool"
and itemsNotNull :: "CreateObjectInputType \<Rightarrow> AnyValue list \<Rightarrow> bool"
where
  "listsNotNull (CreateObjectInputType cls typeName fs) v = fieldsNotNull fs v"
| "fieldsNotNull [] v = True"
| "fieldsNotNull (f # fs) v =
     (fieldNotNull f (map_of (ownProperties v) (name (field f))) \<and> fieldsNotNull fs v)"
| "fieldNotNull (BasicCreateInputField f) x = True"
| "fieldNotNull (BasicListCreateInputField f) x = (x \<noteq> Some Null)"
| "fieldNotNull (ObjectCreateInputField f objectInputType) x =
     (case x of
        Some (Object own inherited) \<Rightarrow> listsNotNull objectInputType (Object own inherited)
      | _ \<Rightarrow> True)"
| "fieldNotNull (ObjectListCreateInputField f objectInputType) x =
     (x \<noteq> Some Null \<and>
      (case x of
         Some (Array items) \<Rightarrow> itemsNotNull objectInputType items
       | _ \<Rightarrow> True))"
| "itemsNotNull objectInputType [] = True"
| "itemsNotNull objectInputType (item # items) =
     (listsNotNull objectInputType item \<and> itemsNotNull objectInputType items)"
  by pat_completeness auto

termination
  by (relation "measures
        [case_sum (case_sum (\<lambda>(T, v). size T) (\<lambda>(fs, v). size_list size fs))
           (case_sum (\<lambda>(f, x). size f) (\<lambda>(T, vs). size T)),
         case_sum (case_sum (\<lambda>_. 0) (\<lambda>_. 0)) (case_sum (\<lambda>_. 0) (\<lambda>_. 1)),
         case_sum (case_sum (\<lambda>_. 0) (\<lambda>_. 0))
           (case_sum (\<lambda>_. 0) (\<lambda>(T, vs). length vs))]")
     auto


section \<open>Evaluation of a merge node\<close>

text \<open>
  Modelled from the spec: the evaluation of a \<open>MergeObjectsQueryNode\<close> belongs to the backend
  adapters, which are not among the sources; only the class and its doc comment are. The
  spec and the doc comment say: the top-level properties of the input objects are merged,
  in the order of the inputs; when several inputs produce the same property name the later
  one wins; the merge is not recursive; a later input that sets a property to the removal
  sentinel removes the property from the result.
  The inputs are the objects the \<open>objectNodes\<close> evaluate to; a property of an input is a
  value or the removal sentinel.
\<close>

datatype MergeProperty =
    Value AnyValue
  | REMOVE

fun mergeProperty :: "PlainObject \<Rightarrow> string \<times> MergeProperty \<Rightarrow> PlainObject" where
  "mergeProperty result (k, Value v) = AList.update k v result"
| "mergeProperty result (k, REMOVE) = AList.delete k result"

definition mergeInto :: "PlainObject \<Rightarrow> (string \<times> MergeProperty) list \<Rightarrow> PlainObject" where
  "mergeInto result object = foldl mergeProperty result object"

definition mergeObjects :: "(string \<times> MergeProperty) list list \<Rightarrow> PlainObject" where
  "mergeObjects objects = foldl mergeInto [] objects"

section \<open>Sample collaborators\<close>

text \<open>
  Concrete collaborators, used where a property is evaluated on an example: an \<open>expand\<close>
  that replaces an operator by a constant node, a tree builder that returns a given tree,
  an authorization pass that leaves the tree as it is, a static evaluator that reduces
  nothing, and an adapter whose \<open>executeExt\<close> returns a given result.
\<close>

definition sampleExpand :: expandMethod where
  "sampleExpand tokenizations node h =
     (OtherQueryNode h ''ConstBoolQueryNode'' [(''value'', PlainValue ''true'')], Suc h)"

definition sampleOperator :: QueryNode where
  "sampleOperator = FlexSearchComplexOperatorQueryNode 3 ''big hero'' ''en'' []"

definition sampleCollaborators :: "QueryNode \<Rightarrow> Collaborators" where
  "sampleCollaborators queryTree =
     \<lparr>distillOperation = (\<lambda>operationInfo. Inr ''operation''),
      buildConditionalObjectQueryNode =
        (\<lambda>rootQueryNode rootType distilled fieldContext. Inr queryTree),
      expand = sampleExpand,
      applyAuthorizationToQueryTree = (\<lambda>expanded roles. Inr expanded),
      evaluateQueryStatically = (\<lambda>authorized. Inr (False, Undefined))\<rparr>"

definition sampleAdapter :: "AdapterExecutionResult \<Rightarrow> DatabaseAdapter" where
  "sampleAdapter res =
     \<lparr>tokenizeExpressions =
        (\<lambda>tokenizations.
           Inr (map (\<lambda>t. \<lparr>expression = expression t, language = language t,
                           tokens = [expression t]\<rparr>) tokenizations)),
      executeExt = Some (\<lambda>queryTree options. Inr res),
      execute = (\<lambda>queryTree. Inr (AdapterExecutionResult.data res))\<rparr>"

definition sampleContext :: "AdapterExecutionResult \<Rightarrow> SchemaTransformationContext" where
  "sampleContext res =
     \<lparr>profileConsumer = False, getExecutionOptions = None,
      databaseAdapter = sampleAdapter res\<rparr>"

definition sampleResult :: AdapterExecutionResult where
  "sampleResult =
     \<lparr>AdapterExecutionResult.data = Object [(''allHeroes'', Array [])] [], error = None,
      timings = None, plan = None, stats = None\<rparr>"

definition sampleRequest :: "string \<Rightarrow> OperationParams" where
  "sampleRequest kind =
     \<lparr>OperationParams.operation =
        \<lparr>OperationDefinitionNode.operation = kind, selectionSet = ''{ allHeroes }''\<rparr>,
      context = ''request'', requestData = ''variables''\<rparr>"

definition idle :: World where
  "idle = \<lparr>registeredContext = None, calls = []\<rparr>"

text \<open>
  Three trees: a search operator held by a merge node under the root object, a search
  operator in the filter field of a search node under the root object, and what the
  expansion pass makes of the latter with \<open>sampleExpand\<close>.
\<close>

definition sampleMergeTree :: QueryNode where
  "sampleMergeTree =
     ObjectQueryNode 1 [PropertySpecification ''hero'' (MergeObjectsQueryNode 2 [sampleOperator])]"

definition sampleSearchTree :: QueryNode where
  "sampleSearchTree =
     ObjectQueryNode 1
       [PropertySpecification ''heroes''
          (OtherQueryNode 2 ''FlexSearchQueryNode''
             [(''rootEntityType'', PlainValue ''Hero''),
              (''flexFilterNode'', NodeValue sampleOperator)])]"

definition expandedSearchTree :: QueryNode where
  "expandedSearchTree =
     ObjectQueryNode 6
       [PropertySpecification ''heroes''
          (OtherQueryNode 5 ''FlexSearchQueryNode''
             [(''rootEntityType'', PlainValue ''Hero''),
              (''flexFilterNode'', NodeValue
                 (OtherQueryNode 4 ''ConstBoolQueryNode'' [(''value'', PlainValue ''true'')]))])]"

definition failedResult :: AdapterExecutionResult where
  "failedResult =
     \<lparr>AdapterExecutionResult.data = Undefined,
      error = Some (Error ''unique constraint violated''),
      timings = None, plan = Some ''plan'', stats = None\<rparr>"

lemmas sample_defs = sampleCollaborators_def sampleAdapter_def sampleContext_def
  sampleResult_def sampleRequest_def idle_def sampleExpand_def sampleOperator_def
  sampleMergeTree_def sampleSearchTree_def expandedSearchTree_def failedResult_def

lemmas resolver_defs = resolveOperation_def prepareQueryTree_def executeQueryTree_def
  assembleResult_def queryFlexSearchTokens_def executionOptions_def needsTimings_def
  registerContext_def unregisterContext_def called_def stop_def noOptions_def Let_def

subsection \<open>Sample create input types\<close>

text \<open>
  A runtime whose \<open>Object.prototype\<close> and \<open>Array.prototype\<close> hold a few of the standard
  members, and \<open>objectLiteral\<close>, an object written as a literal \<open>{...}\<close>, which inherits from
  \<open>Object.prototype\<close>.
\<close>

definition sampleRuntime :: Runtime where
  "sampleRuntime =
     \<lparr>ID_FIELD = ''id'', ENTITY_CREATED_AT = ''createdAt'', ENTITY_UPDATED_AT = ''updatedAt'',
      currentISODate = ''2018-05-01T12:00:00.000Z'', uuid = ''0f8fad5b'',
      objectPrototype =
        [(''constructor'', FunctionValue [(''name'', StringValue ''Object'')]),
         (''hasOwnProperty'', FunctionValue [(''name'', StringValue ''hasOwnProperty'')]),
         (''toString'', FunctionValue [(''name'', StringValue ''toString'')]),
         (''valueOf'', FunctionValue [(''name'', StringValue ''valueOf'')])],
      arrayPrototype =
        [(''constructor'', FunctionValue [(''name'', StringValue ''Array'')]),
         (''map'', FunctionValue [(''name'', StringValue ''map'')]),
         (''toString'', FunctionValue [(''name'', StringValue ''toString'')]),
         (''hasOwnProperty'', FunctionValue [(''name'', StringValue ''hasOwnProperty'')]),
         (''valueOf'', FunctionValue [(''name'', StringValue ''valueOf'')])]\<rparr>"

definition objectLiteral :: "PlainObject \<Rightarrow> AnyValue" where
  "objectLiteral own = Object own (objectPrototype sampleRuntime)"

text \<open>
  A create input type after the \<open>Hero\<close> root entity of the development model: \<open>name\<close>,
  \<open>age\<close> with the default value 42, the scalar list \<open>nickNames\<close> and the list \<open>skills\<close> of
  value objects, each with a \<open>description\<close> and the scalar list \<open>tags\<close>.
\<close>

definition nameField :: Field where
  "nameField = \<lparr>declaringType = ''Hero'', name = ''name'', hasDefaultValue = False,
     defaultValue = Undefined\<rparr>"

definition ageField :: Field where
  "ageField = \<lparr>declaringType = ''Hero'', name = ''age'', hasDefaultValue = True,
     defaultValue = Scalar ''42''\<rparr>"

definition nickNamesField :: Field where
  "nickNamesField = \<lparr>declaringType = ''Hero'', name = ''nickNames'', hasDefaultValue = False,
     defaultValue = Undefined\<rparr>"

definition skillsField :: Field where
  "skillsField = \<lparr>declaringType = ''Hero'', name = ''skills'', hasDefaultValue = False,
     defaultValue = Undefined\<rparr>"

definition descriptionField :: Field where
  "descriptionField = \<lparr>declaringType = ''Skill'', name = ''description'',
     hasDefaultValue = False, defaultValue = Undefined\<rparr>"

definition tagsField :: Field where
  "tagsField = \<lparr>declaringType = ''Skill'', name = ''tags'', hasDefaultValue = False,
     defaultValue = Undefined\<rparr>"

definition skillInput :: CreateObjectInputType where
  "skillInput = CreateObjectInputType CreateObjectInput ''SkillInput''
     [BasicCreateInputField descriptionField, BasicListCreateInputField tagsField]"

definition heroFields :: "CreateInputField list" where
  "heroFields =
     [BasicCreateInputField nameField, BasicCreateInputField ageField,
      BasicListCreateInputField nickNamesField,
      ObjectListCreateInputField skillsField skillInput]"

definition createHeroInput :: CreateObjectInputType where
  "createHeroInput = CreateObjectInputType CreateRootEntityInput ''CreateHeroInput'' heroFields"

text \<open>
  The input \<open>{name: Batman, nickNames: null, skills: [{description: flying, tags: null}]}\<close>.
\<close>

definition heroWithNulls :: AnyValue where
  "heroWithNulls =
     objectLiteral
       [(''name'', StringValue ''Batman''), (''nickNames'', Null),
        (''skills'', Array [objectLiteral [(''description'', StringValue ''flying''),
                                            (''tags'', Null)]])]"




lemmas hero_defs = sampleRuntime_def objectLiteral_def nameField_def ageField_def
  nickNamesField_def skillsField_def descriptionField_def tagsField_def skillInput_def
  heroFields_def createHeroInput_def

lemmas property_defs = hasProperty_def getProperty_def fromPairs_def

section \<open>Structural sharing in the expansion pass\<close>

lemma expandFields_hasChanged:
  "snd (fst (expandFields X t fs h)) \<Longrightarrow>
     \<exists>before field oldValue after. fs = before @ (field, NodeValue oldValue) # after \<and>
        refOf (fst (expandQueryNode X t oldValue (snd (expandFields X t before h))))
          \<noteq> refOf oldValue"
proof (induction fs arbitrary: h)
  case Nil
  then show ?case by simp
next
  case (Cons a fs)
  obtain field v where a: "a = (field, v)" by (cases a)
  have skip: ?case
    if rest: "snd (fst (expandFields X t fs h1))"
      and counter: "\<And>before. snd (expandFields X t (a # before) h) = snd (expandFields X t before h1)"
    for h1
  proof -
    from Cons.IH[OF rest] obtain before g oldValue after where
      split: "fs = before @ (g, NodeValue oldValue) # after" and
      changed: "refOf (fst (expandQueryNode X t oldValue (snd (expandFields X t before h1))))
                  \<noteq> refOf oldValue"
      by blast
    from split have "a # fs = (a # before) @ (g, NodeValue oldValue) # after" by simp
    moreover from changed counter
    have "refOf (fst (expandQueryNode X t oldValue (snd (expandFields X t (a # before) h))))
            \<noteq> refOf oldValue"
      by simp
    ultimately show ?thesis by blast
  qed
  show ?case
  proof (cases v)
    case (NodeValue oldValue)
    show ?thesis
    proof (cases "refOf (fst (expandQueryNode X t oldValue h)) \<noteq> refOf oldValue")
      case True
      have "a # fs = [] @ (field, NodeValue oldValue) # fs" using a NodeValue by simp
      moreover have "refOf (fst (expandQueryNode X t oldValue (snd (expandFields X t [] h))))
                       \<noteq> refOf oldValue"
        using True by simp
      ultimately show ?thesis by blast
    next
      case False
      let ?h1 = "snd (expandQueryNode X t oldValue h)"
      have "snd (fst (expandFields X t fs ?h1))"
        using Cons.prems a NodeValue False by (simp split: prod.splits)
      moreover have "snd (expandFields X t (a # before) h) = snd (expandFields X t before ?h1)"
        for before
        using a NodeValue by (simp split: prod.splits)
      ultimately show ?thesis by (rule skip)
    qed
  next
    case (ArrayValue ns)
    have "snd (fst (expandFields X t fs h))" using Cons.prems a ArrayValue by simp
    moreover have "snd (expandFields X t (a # before) h) = snd (expandFields X t before h)"
      for before
      using a ArrayValue by simp
    ultimately show ?thesis by (rule skip)
  next
    case (PlainValue s)
    have "snd (fst (expandFields X t fs h))" using Cons.prems a PlainValue by simp
    moreover have "snd (expandFields X t (a # before) h) = snd (expandFields X t before h)"
      for before
      using a PlainValue by simp
    ultimately show ?thesis by (rule skip)
  qed
qed

lemma expand_without_operators:
  "(\<not> occursInTree isFlexSearchComplexOperatorQueryNode n \<longrightarrow>
      \<not> occursInTree isObjectQueryNode n \<longrightarrow> expandQueryNode X t n h = (n, h))"
  "(\<not> occursInProperties isFlexSearchComplexOperatorQueryNode ps \<longrightarrow>
      \<not> occursInProperties isObjectQueryNode ps \<longrightarrow> expandProperties X t ps h = (ps, h))"
  "(\<not> occursInFields isFlexSearchComplexOperatorQueryNode fs \<longrightarrow>
      \<not> occursInFields isObjectQueryNode fs \<longrightarrow> expandFields X t fs h = (([], False), h))"
  by (induction X t n h and X t ps h and X t fs h
      rule: expandQueryNode_expandProperties_expandFields.induct) auto

lemma expand_counter:
  "(\<forall>t' n' h'. h' \<le> snd (X t' n' h')) \<longrightarrow> h \<le> snd (expandQueryNode X t n h)"
  "(\<forall>t' n' h'. h' \<le> snd (X t' n' h')) \<longrightarrow> h \<le> snd (expandProperties X t ps h)"
  "(\<forall>t' n' h'. h' \<le> snd (X t' n' h')) \<longrightarrow> h \<le> snd (expandFields X t fs h)"
proof (induction X t n h and X t ps h and X t fs h
      rule: expandQueryNode_expandProperties_expandFields.induct)
  case (1 X tokenizations r e l fs h)
  show ?case by simp
next
  case (2 X tokenizations r ps h)
  then show ?case by (auto split: prod.splits)
next
  case (3 X tokenizations r c fs h)
  then show ?case by (auto split: prod.splits)
next
  case (4 X tokenizations h)
  show ?case by simp
next
  case (5 X tokenizations k v ps h)
  show ?case
  proof
    assume mono: "\<forall>t' n' h'. h' \<le> snd (X t' n' h')"
    obtain e h1 where e: "expandQueryNode X tokenizations v h = (e, h1)" by force
    obtain specs h2 where s: "expandProperties X tokenizations ps h1 = (specs, h2)" by force
    from 5(1) mono e have "h \<le> h1" by simp
    moreover from 5(2)[OF e[symmetric]] mono s have "h1 \<le> h2" by simp
    ultimately show "h \<le> snd (expandProperties X tokenizations (PropertySpecification k v # ps) h)"
      using e s by simp
  qed
next
  case (6 X tokenizations h)
  show ?case by simp
next
  case (7 X tokenizations field oldValue fs h)
  show ?case
  proof
    assume mono: "\<forall>t' n' h'. h' \<le> snd (X t' n' h')"
    obtain e h1 where e: "expandQueryNode X tokenizations oldValue h = (e, h1)" by force
    obtain r h2 where s: "expandFields X tokenizations fs h1 = (r, h2)" by (meson surj_pair)
    from 7(1) mono e have "h \<le> h1" by simp
    moreover from 7(2)[OF e[symmetric]] mono s have "h1 \<le> h2" by simp
    ultimately show "h \<le> snd (expandFields X tokenizations ((field, NodeValue oldValue) # fs) h)"
      using e s by (simp split: prod.splits)
  qed
next
  case (8 X tokenizations field ns fs h)
  then show ?case by simp
next
  case (9 X tokenizations field s fs h)
  then show ?case by simp
qed

text \<open>
  Claim C5, as amended. A node that is neither a search operator nor an object node is
  rebuilt by \<open>expandQueryNode\<close> only if one of its node-valued fields changed: the
  expansion of that field's node, started at the allocation counter the loop has reached
  after the fields before it, returned a different reference. On a tree that contains
  neither a search operator nor an object node, \<open>expandQueryNode\<close> returns the node it was
  given and allocates nothing. An object node is answered with a new object node whenever
  it is visited: when the counter is beyond the node's reference and \<open>expand\<close> never moves
  the counter back, the result is an object node with a reference beyond the old one.
\<close>

theorem expandQueryNode_sharing:
  "(fst (expandQueryNode X t (OtherQueryNode r c fs) h) \<noteq> OtherQueryNode r c fs \<longrightarrow>
      (\<exists>before field oldValue after. fs = before @ (field, NodeValue oldValue) # after \<and>
         refOf (fst (expandQueryNode X t oldValue (snd (expandFields X t before h))))
           \<noteq> refOf oldValue))
   \<and> (\<not> occursInTree isFlexSearchComplexOperatorQueryNode n \<and>
        \<not> occursInTree isObjectQueryNode n \<longrightarrow> expandQueryNode X t n h = (n, h))
   \<and> ((\<forall>t' n' h'. h' \<le> snd (X t' n' h')) \<and> r < h \<longrightarrow>
        (\<exists>specs h'. expandQueryNode X t (ObjectQueryNode r ps) h
                       = (ObjectQueryNode h' specs, Suc h') \<and> r < h'))"
proof (intro conjI impI)
  assume changed: "fst (expandQueryNode X t (OtherQueryNode r c fs) h) \<noteq> OtherQueryNode r c fs"
  have "snd (fst (expandFields X t fs h))"
  proof (rule ccontr)
    assume "\<not> snd (fst (expandFields X t fs h))"
    then have "fst (expandQueryNode X t (OtherQueryNode r c fs) h) = OtherQueryNode r c fs"
      by (cases "expandFields X t fs h") auto
    with changed show False by contradiction
  qed
  then show "\<exists>before field oldValue after. fs = before @ (field, NodeValue oldValue) # after \<and>
         refOf (fst (expandQueryNode X t oldValue (snd (expandFields X t before h))))
           \<noteq> refOf oldValue"
    by (rule expandFields_hasChanged)
next
  assume "\<not> occursInTree isFlexSearchComplexOperatorQueryNode n \<and>
        \<not> occursInTree isObjectQueryNode n"
  then show "expandQueryNode X t n h = (n, h)"
    using expand_without_operators(1) by blast
next
  assume fresh: "(\<forall>t' n' h'. h' \<le> snd (X t' n' h')) \<and> r < h"
  obtain specs h' where s: "expandProperties X t ps h = (specs, h')" by force
  from fresh expand_counter(2)[of X h t ps] s have "h \<le> h'" by simp
  with fresh s show "\<exists>specs h'. expandQueryNode X t (ObjectQueryNode r ps) h
                       = (ObjectQueryNode h' specs, Suc h') \<and> r < h'"
    by simp
qed

text \<open>
  The theorem at work: a negation node over a search operator is rebuilt, because its
  \<open>valueNode\<close> changed; a merge node over a variable is returned as it is; an object node
  over a variable, with the reference 1, is answered at the counter 4 with a new object
  node.
\<close>

theorem expandQueryNode_sharing_witness:
  "fst (expandQueryNode sampleExpand []
          (OtherQueryNode 1 ''UnaryOperationQueryNode''
             [(''operator'', PlainValue ''NOT''), (''valueNode'', NodeValue sampleOperator)]) 4)
     \<noteq> OtherQueryNode 1 ''UnaryOperationQueryNode''
             [(''operator'', PlainValue ''NOT''), (''valueNode'', NodeValue sampleOperator)]
   \<and> (\<exists>before field oldValue after.
         [(''operator'', PlainValue ''NOT''), (''valueNode'', NodeValue sampleOperator)]
           = before @ (field, NodeValue oldValue) # after \<and>
         refOf (fst (expandQueryNode sampleExpand [] oldValue
                       (snd (expandFields sampleExpand [] before 4)))) \<noteq> refOf oldValue)
   \<and> \<not> occursInTree isFlexSearchComplexOperatorQueryNode
         (MergeObjectsQueryNode 1 [OtherQueryNode 2 ''VariableQueryNode'' []])
   \<and> \<not> occursInTree isObjectQueryNode
         (MergeObjectsQueryNode 1 [OtherQueryNode 2 ''VariableQueryNode'' []])
   \<and> expandQueryNode sampleExpand []
         (MergeObjectsQueryNode 1 [OtherQueryNode 2 ''VariableQueryNode'' []]) 4
       = (MergeObjectsQueryNode 1 [OtherQueryNode 2 ''VariableQueryNode'' []], 4)
   \<and> (\<forall>t' n' h'. h' \<le> snd (sampleExpand t' n' h'))
   \<and> (1::nat) < 4
   \<and> (\<exists>specs h'. expandQueryNode sampleExpand []
                     (ObjectQueryNode 1 [PropertySpecification ''hero''
                        (OtherQueryNode 2 ''VariableQueryNode'' [])]) 4
                   = (ObjectQueryNode h' specs, Suc h') \<and> 1 < h')"
  using expandQueryNode_sharing [where X = sampleExpand and t = "[]" and r = 1
      and c = "''UnaryOperationQueryNode''"
      and fs = "[(''operator'', PlainValue ''NOT''), (''valueNode'', NodeValue sampleOperator)]"
      and h = 4
      and n = "MergeObjectsQueryNode 1 [OtherQueryNode 2 ''VariableQueryNode'' []]"
      and ps = "[PropertySpecification ''hero'' (OtherQueryNode 2 ''VariableQueryNode'' [])]"]
  by (simp add: sampleExpand_def sampleOperator_def MergeObjectsQueryNode_def)

text \<open>
  Claim C5 as stated fails: the empty object node contains no search operator, yet
  \<open>expandQueryNode\<close> answers with a new object node (\<open>return new ObjectQueryNode(specs)\<close>
  is unconditional).
\<close>

theorem expandQueryNode_rebuilds_object_counterexample:
  "\<not> occursInTree isFlexSearchComplexOperatorQueryNode EMPTY
   \<and> refOf (fst (expandQueryNode sampleExpand [] EMPTY (freshRef EMPTY))) \<noteq> refOf EMPTY"
  by (simp add: EMPTY_def freshRef_def)

section \<open>What the two passes do with a merge node\<close>

text \<open>The enrichment pass calls the adapter once, with everything it collected.\<close>

lemma queryFlexSearchTokens_one_call:
  "calls (fst (queryFlexSearchTokens queryTree adapter w))
     = calls w @ [TokenizeExpressions (collectTokenizations queryTree)]"
  by (simp add: queryFlexSearchTokens_def called_def Let_def)

text \<open>
  Claim C2 at a failing input. The collection pass finds nothing under a merge node,
  whatever its inputs are: for the tree \<open>sampleMergeTree\<close>, which contains a search
  operator, the one call of \<open>tokenizeExpressions\<close> carries the empty list.
\<close>

theorem collectTokenizations_skips_merge_inputs:
  "collectTokenizations (MergeObjectsQueryNode r objectNodes) = []
   \<and> occursInTree isFlexSearchComplexOperatorQueryNode sampleMergeTree
   \<and> fst (queryFlexSearchTokens sampleMergeTree (sampleAdapter sampleResult) idle)
       = \<lparr>registeredContext = None, calls = [TokenizeExpressions []]\<rparr>"
  by (simp add: MergeObjectsQueryNode_def sampleMergeTree_def sampleOperator_def
      queryFlexSearchTokens_def called_def idle_def)

text \<open>
  Claim C1 at a failing input. The expansion pass returns a merge node as it is, whatever
  its inputs are: resolving a request whose tree is \<open>sampleMergeTree\<close> hands a tree that
  still contains the search operator to the authorization pass, to the static evaluator and
  to \<open>executeExt\<close>.
\<close>

theorem expandQueryNode_skips_merge_inputs:
  "expandQueryNode X t (MergeObjectsQueryNode r objectNodes) h
     = (MergeObjectsQueryNode r objectNodes, h)
   \<and> calls (fst (resolveOperation (sampleCollaborators sampleMergeTree)
                   (sampleContext sampleResult) (sampleRequest ''query'') ''Query'' None idle))
       = [DistillOperation, BuildConditionalObjectQueryNode, TokenizeExpressions [],
          ApplyAuthorizationToQueryTree
            (ObjectQueryNode 4
               [PropertySpecification ''hero'' (MergeObjectsQueryNode 2 [sampleOperator])]),
          EvaluateQueryStatically
            (ObjectQueryNode 4
               [PropertySpecification ''hero'' (MergeObjectsQueryNode 2 [sampleOperator])]),
          ExecuteExt
            (ObjectQueryNode 4
               [PropertySpecification ''hero'' (MergeObjectsQueryNode 2 [sampleOperator])])]
   \<and> occursInTree isFlexSearchComplexOperatorQueryNode
         (ObjectQueryNode 4
            [PropertySpecification ''hero'' (MergeObjectsQueryNode 2 [sampleOperator])])"
  by (simp add: MergeObjectsQueryNode_def sample_defs resolver_defs freshRef_def EMPTY_def)

section \<open>The resolver: context registration, write guard, backend errors\<close>

lemma prepareQueryTree_effects:
  assumes "prepareQueryTree C ctx operationInfo rootType options watch w = (w2, r)"
  shows "registeredContext w2 = registeredContext w"
    and "\<exists>cs. calls w2 = calls w @ cs \<and> (\<forall>q. ExecuteExt q \<notin> set cs)"
  using assms
  by (auto simp: prepareQueryTree_def queryFlexSearchTokens_def called_def Let_def
      split: sum.splits prod.splits)

lemma prepareQueryTree_watch:
  assumes "prepareQueryTree C ctx operationInfo rootType options watch w = (w2, Inr (t, watch1))"
  shows "watch1 = map_option (\<lambda>s. s @ [''distillation'', ''queryTree'', ''authorization'']) watch"
  using assms
  by (cases watch)
     (auto simp: prepareQueryTree_def queryFlexSearchTokens_def called_def Let_def stop_def
      split: sum.splits prod.splits)

lemma executeQueryTree_backend_error:
  assumes "executeQueryTree C ctx operationInfo options t watch topLevelWatch w = (w', outcome)"
      and "calls w' = calls w @ cs" and "ExecuteExt q \<in> set cs"
      and "executeExt (databaseAdapter ctx) = Some m"
      and "m q options = Inr res"
  shows "q = t \<and> outcome = Inr (assembleResult operationInfo
            (if watch \<noteq> None \<and> topLevelWatch \<noteq> None then stop ''staticEvaluation'' watch else watch)
            (stop ''database'' (if watch \<noteq> None \<and> topLevelWatch \<noteq> None
               then stop ''preparation'' topLevelWatch else topLevelWatch)) res)"
  using assms
  by (auto simp: executeQueryTree_def called_def Let_def split: sum.splits prod.splits if_splits)

text \<open>
  Once the write guard is passed, every path through \<open>resolveOperation\<close> unregisters the
  context: the \<open>finally\<close> block does its work.
\<close>

lemma resolveOperation_unregisters:
  assumes "\<not> (OperationDefinitionNode.operation (OperationParams.operation operationInfo) = ''mutation''
             \<and> mutationMode (executionOptions ctx operationInfo optionsArg) = Some ''disallowed'')"
  shows "registeredContext (fst (resolveOperation C ctx operationInfo rootType optionsArg w)) = None"
  using assms
  by (auto simp: resolver_defs split: sum.splits prod.splits option.splits)

text \<open>
  Claim C3 at a failing input. The write guard throws before the \<open>try\<close> statement: a
  mutation that arrives while mutations are disallowed ends with the error and with the
  resolver's context still registered, for any collaborators, context and other options.
\<close>

theorem resolveOperation_guard_keeps_context_registered:
  "resolveOperation C ctx (sampleRequest ''mutation'') rootType
     (Some (options\<lparr>mutationMode := Some ''disallowed''\<rparr>)) idle
   = (\<lparr>registeredContext = Some ctx, calls = []\<rparr>, Inl (Error ''Mutations are not allowed''))"
  by (simp add: resolveOperation_def executionOptions_def registerContext_def sampleRequest_def
      idle_def Let_def)

text \<open>
  Claim C4. If the operation is a mutation and the options of the request set
  \<open>mutationMode\<close> to \<open>disallowed\<close>, \<open>resolveOperation\<close> fails with "Mutations are not
  allowed" and has called no collaborator: no distillation, no tree building, no
  tokenization, no backend call.
\<close>

theorem resolveOperation_rejects_disallowed_mutation:
  assumes "OperationDefinitionNode.operation (OperationParams.operation operationInfo) = ''mutation''"
      and "mutationMode (executionOptions ctx operationInfo optionsArg) = Some ''disallowed''"
  shows "snd (resolveOperation C ctx operationInfo rootType optionsArg w)
           = Inl (Error ''Mutations are not allowed'')
         \<and> calls (fst (resolveOperation C ctx operationInfo rootType optionsArg w)) = calls w"
  using assms by (simp add: resolveOperation_def registerContext_def Let_def)

theorem resolveOperation_rejects_disallowed_mutation_witness:
  "OperationDefinitionNode.operation (OperationParams.operation (sampleRequest ''mutation''))
     = ''mutation''
   \<and> mutationMode (executionOptions (sampleContext sampleResult) (sampleRequest ''mutation'')
         (Some (noOptions\<lparr>mutationMode := Some ''disallowed''\<rparr>))) = Some ''disallowed''
   \<and> snd (resolveOperation (sampleCollaborators sampleSearchTree) (sampleContext sampleResult)
            (sampleRequest ''mutation'') ''Mutation''
            (Some (noOptions\<lparr>mutationMode := Some ''disallowed''\<rparr>)) idle)
       = Inl (Error ''Mutations are not allowed'')
   \<and> calls (fst (resolveOperation (sampleCollaborators sampleSearchTree)
            (sampleContext sampleResult) (sampleRequest ''mutation'') ''Mutation''
            (Some (noOptions\<lparr>mutationMode := Some ''disallowed''\<rparr>)) idle)) = []"
proof -
  have kind: "OperationDefinitionNode.operation
                (OperationParams.operation (sampleRequest ''mutation'')) = ''mutation''"
    by (simp add: sampleRequest_def)
  have mode: "mutationMode (executionOptions (sampleContext sampleResult)
                (sampleRequest ''mutation'')
                (Some (noOptions\<lparr>mutationMode := Some ''disallowed''\<rparr>))) = Some ''disallowed''"
    by (simp add: executionOptions_def)
  from resolveOperation_rejects_disallowed_mutation[OF kind mode,
      of "sampleCollaborators sampleSearchTree" "''Mutation''" idle] kind mode
  show ?thesis by (simp add: idle_def)
qed

text \<open>
  Claim C6. Whenever \<open>executeExt\<close> was called for the request and resolved to a result that
  carries an error, \<open>resolveOperation\<close> does not throw: it returns the envelope with the
  backend's data, the backend's error as a value and, when timings were asked for (a
  profile consumer, \<open>recordPlan\<close> or \<open>recordTimings\<close>), the profile with the phases sampled
  so far and the plan, statistics and timings the backend reported.
\<close>

theorem resolveOperation_returns_backend_error:
  assumes run: "resolveOperation C ctx operationInfo rootType optionsArg w = (w', outcome)"
      and log: "calls w' = calls w @ cs"
      and called: "ExecuteExt queryTree \<in> set cs"
      and ext: "executeExt (databaseAdapter ctx) = Some executeExtMethod"
      and res: "executeExtMethod queryTree (executionOptions ctx operationInfo optionsArg) = Inr res"
      and err: "AdapterExecutionResult.error res = Some e"
  shows "outcome = Inr
           \<lparr>ExecutionResult.data = AdapterExecutionResult.data res,
            error = Some e,
            profile =
              (if needsTimings ctx (executionOptions ctx operationInfo optionsArg)
               then Some \<lparr>preparation = [''distillation'', ''queryTree'', ''authorization'',
                                          ''staticEvaluation'', ''total''],
                          adapterTimings = AdapterExecutionResult.timings res,
                          plan = AdapterExecutionResult.plan res,
                          stats = (case AdapterExecutionResult.stats res of
                                     Some s \<Rightarrow> s | None \<Rightarrow> []),
                          request = operationInfo\<rparr>
               else None)\<rparr>"
proof -
  let ?options = "executionOptions ctx operationInfo optionsArg"
  let ?watch = "if needsTimings ctx ?options then Some [] else None"
  let ?guard = "OperationDefinitionNode.operation (OperationParams.operation operationInfo)
                  = ''mutation'' \<and> mutationMode ?options = Some ''disallowed''"
  have noGuard: "\<not> ?guard"
  proof
    assume ?guard
    then have "w' = registerContext ctx w"
      using run by (simp add: resolveOperation_def Let_def)
    then have "cs = []" using log by (simp add: registerContext_def)
    with called show False by simp
  qed
  obtain w2 r where prep:
    "prepareQueryTree C ctx operationInfo rootType ?options ?watch (registerContext ctx w) = (w2, r)"
    by (cases "prepareQueryTree C ctx operationInfo rootType ?options ?watch (registerContext ctx w)")
  from prepareQueryTree_effects(2)[OF prep] obtain cs1
    where cs1: "calls w2 = calls w @ cs1" "\<forall>q. ExecuteExt q \<notin> set cs1"
    by (auto simp: registerContext_def)
  show ?thesis
  proof (cases r)
    case (Inl e')
    then have "w' = unregisterContext w2"
      using run noGuard prep by (simp add: resolveOperation_def Let_def)
    then have "cs = cs1" using log cs1 by (simp add: unregisterContext_def)
    with called cs1 show ?thesis by simp
  next
    case (Inr p)
    obtain t watch1 where p: "p = (t, watch1)" by (cases p)
    have exec: "executeQueryTree C ctx operationInfo ?options t watch1 ?watch
                  (unregisterContext w2) = (w', outcome)"
      using run noGuard prep Inr p by (simp add: resolveOperation_def Let_def)
    obtain cs2 where cs2: "calls w' = calls (unregisterContext w2) @ cs2"
      using exec
      by (auto simp: executeQueryTree_def called_def Let_def
          split: sum.splits prod.splits if_splits option.splits)
    then have "cs = cs1 @ cs2" using log cs1 by (simp add: unregisterContext_def)
    with called cs1 have in2: "ExecuteExt queryTree \<in> set cs2" by auto
    have watch1: "watch1 = map_option (\<lambda>s. s @ [''distillation'', ''queryTree'', ''authorization'']) ?watch"
      using prepareQueryTree_watch prep Inr p by blast
    from executeQueryTree_backend_error[OF exec cs2 in2 ext res]
    show ?thesis using err watch1
      by (simp add: assembleResult_def stop_def)
  qed
qed

text \<open>
  The theorem at work: a mutation with \<open>recordTimings\<close> set, whose tree holds a search
  operator, sent to an adapter that reports a constraint violation.
\<close>

theorem resolveOperation_returns_backend_error_witness:
  "calls (fst (resolveOperation (sampleCollaborators sampleSearchTree)
                 (sampleContext failedResult) (sampleRequest ''mutation'') ''Mutation''
                 (Some (noOptions\<lparr>recordTimings := True\<rparr>)) idle))
     = calls idle @
       [DistillOperation, BuildConditionalObjectQueryNode,
        TokenizeExpressions [\<lparr>expression = ''big hero'', language = ''en''\<rparr>],
        ApplyAuthorizationToQueryTree expandedSearchTree,
        EvaluateQueryStatically expandedSearchTree,
        ExecuteExt expandedSearchTree]
   \<and> snd (resolveOperation (sampleCollaborators sampleSearchTree)
                 (sampleContext failedResult) (sampleRequest ''mutation'') ''Mutation''
                 (Some (noOptions\<lparr>recordTimings := True\<rparr>)) idle)
     = Inr \<lparr>ExecutionResult.data = Undefined,
            error = Some (Error ''unique constraint violated''),
            profile = Some \<lparr>preparation = [''distillation'', ''queryTree'', ''authorization'',
                                             ''staticEvaluation'', ''total''],
                             adapterTimings = None, plan = Some ''plan'', stats = [],
                             request = sampleRequest ''mutation''\<rparr>\<rparr>"
proof -
  let ?run = "resolveOperation (sampleCollaborators sampleSearchTree)
                 (sampleContext failedResult) (sampleRequest ''mutation'') ''Mutation''
                 (Some (noOptions\<lparr>recordTimings := True\<rparr>)) idle"
  let ?cs = "[DistillOperation, BuildConditionalObjectQueryNode,
        TokenizeExpressions [\<lparr>expression = ''big hero'', language = ''en''\<rparr>],
        ApplyAuthorizationToQueryTree expandedSearchTree,
        EvaluateQueryStatically expandedSearchTree,
        ExecuteExt expandedSearchTree]"
  have run: "?run = (fst ?run, snd ?run)" by simp
  have log: "calls (fst ?run) = calls idle @ ?cs"
    by (simp add: resolver_defs sample_defs freshRef_def EMPTY_def assign_def)
  have called: "ExecuteExt expandedSearchTree \<in> set ?cs" by simp
  have ext: "executeExt (databaseAdapter (sampleContext failedResult))
               = Some (\<lambda>queryTree options. Inr failedResult)"
    by (simp add: sampleContext_def sampleAdapter_def)
  have res: "(\<lambda>queryTree options. Inr failedResult) expandedSearchTree
               (executionOptions (sampleContext failedResult) (sampleRequest ''mutation'')
                  (Some (noOptions\<lparr>recordTimings := True\<rparr>))) = Inr failedResult"
    by simp
  have err: "AdapterExecutionResult.error failedResult = Some (Error ''unique constraint violated'')"
    by (simp add: failedResult_def)
  from resolveOperation_returns_backend_error[OF run log called ext res err] log
  show ?thesis
    by (simp add: needsTimings_def executionOptions_def failedResult_def noOptions_def)
qed

section \<open>Merging objects\<close>

lemma map_of_mergeProperty:
  "map_of (mergeProperty result (k', p)) k =
     (if k = k' then (case p of Value v \<Rightarrow> Some v | REMOVE \<Rightarrow> None) else map_of result k)"
  by (cases p) (auto simp: update_conv' delete_conv')

lemma mergeInto_other:
  "k \<notin> fst ` set object \<Longrightarrow> map_of (mergeInto result object) k = map_of result k"
  unfolding mergeInto_def
proof (induction object arbitrary: result)
  case Nil
  then show ?case by simp
next
  case (Cons a object)
  obtain k' p where a: "a = (k', p)" by (cases a)
  with Cons.prems have "k \<noteq> k'" "k \<notin> fst ` set object" by auto
  then show ?case using Cons.IH a by (simp add: map_of_mergeProperty)
qed

lemma mergeInto_defined:
  "distinct (map fst object) \<Longrightarrow> map_of object k = Some (Value v) \<Longrightarrow>
     map_of (mergeInto result object) k = Some v"
proof (induction object arbitrary: result)
  case Nil
  then show ?case by simp
next
  case (Cons a object)
  obtain k' p where a: "a = (k', p)" by (cases a)
  show ?case
  proof (cases "k = k'")
    case True
    with Cons.prems a have p: "p = Value v" and fresh: "k \<notin> fst ` set object" by auto
    have "map_of (mergeInto (mergeProperty result (k', p)) object) k
            = map_of (mergeProperty result (k', p)) k"
      using fresh by (rule mergeInto_other)
    then show ?thesis using a p True by (simp add: mergeInto_def update_conv')
  next
    case False
    with Cons.prems a have "distinct (map fst object)" "map_of object k = Some (Value v)"
      by auto
    from Cons.IH[OF this] show ?thesis using a by (simp add: mergeInto_def)
  qed
qed

lemma foldl_mergeInto_other:
  "\<forall>object \<in> set objects. k \<notin> fst ` set object \<Longrightarrow>
     map_of (foldl mergeInto result objects) k = map_of result k"
  by (induction objects arbitrary: result) (simp_all add: mergeInto_other)

text \<open>
  Claim C8. In the merged object a property has the value that the last input producing
  it gives it, whatever earlier inputs gave it: if an input sets property \<open>k\<close> to the value
  \<open>v\<close> and no input after it produces \<open>k\<close>, the merged object maps \<open>k\<close> to \<open>v\<close>. And
  merging \<open>{a:1,b:2}\<close> with \<open>{b:3,c:4}\<close> yields \<open>{a:1,b:3,c:4}\<close>.
\<close>

theorem mergeObjects_later_wins:
  "(distinct (map fst later) \<and> map_of later k = Some (Value v) \<and>
      (\<forall>object \<in> set after. k \<notin> fst ` set object)
      \<longrightarrow> map_of (mergeObjects (before @ later # after)) k = Some v)
   \<and> mergeObjects
         [[(''a'', Value (Scalar ''1'')), (''b'', Value (Scalar ''2''))],
          [(''b'', Value (Scalar ''3'')), (''c'', Value (Scalar ''4''))]]
       = [(''a'', Scalar ''1''), (''b'', Scalar ''3''), (''c'', Scalar ''4'')]"
proof (intro conjI impI)
  assume h: "distinct (map fst later) \<and> map_of later k = Some (Value v) \<and>
      (\<forall>object \<in> set after. k \<notin> fst ` set object)"
  have "map_of (mergeObjects (before @ later # after)) k
          = map_of (mergeInto (foldl mergeInto [] before) later) k"
    using h by (simp add: mergeObjects_def foldl_mergeInto_other)
  also have "\<dots> = Some v" using h by (simp add: mergeInto_defined)
  finally show "map_of (mergeObjects (before @ later # after)) k = Some v" .
next
  show "mergeObjects
         [[(''a'', Value (Scalar ''1'')), (''b'', Value (Scalar ''2''))],
          [(''b'', Value (Scalar ''3'')), (''c'', Value (Scalar ''4''))]]
       = [(''a'', Scalar ''1''), (''b'', Scalar ''3''), (''c'', Scalar ''4'')]"
    by (simp add: mergeObjects_def mergeInto_def)
qed

text \<open>
  The theorem at work on three inputs, the second of which overwrites \<open>b\<close> and removes
  \<open>c\<close>.
\<close>

theorem mergeObjects_later_wins_witness:
  "distinct (map fst [(''b'', Value (Scalar ''3'')), (''c'', REMOVE)])
   \<and> map_of [(''b'', Value (Scalar ''3'')), (''c'', REMOVE)] ''b'' = Some (Value (Scalar ''3''))
   \<and> ''b'' \<notin> fst ` set [(''d'', Value Null)]
   \<and> map_of (mergeObjects
        ([[(''a'', Value (Scalar ''1'')), (''b'', Value (Scalar ''2'')), (''c'', Value (Scalar ''5''))]]
         @ [(''b'', Value (Scalar ''3'')), (''c'', REMOVE)] # [[(''d'', Value Null)]])) ''b''
       = Some (Scalar ''3'')
   \<and> mergeObjects
        [[(''a'', Value (Scalar ''1'')), (''b'', Value (Scalar ''2'')), (''c'', Value (Scalar ''5''))],
         [(''b'', Value (Scalar ''3'')), (''c'', REMOVE)], [(''d'', Value Null)]]
       = [(''a'', Scalar ''1''), (''b'', Scalar ''3''), (''d'', Null)]"
  using mergeObjects_later_wins [of "[(''b'', Value (Scalar ''3'')), (''c'', REMOVE)]" "''b''"
      "Scalar ''3''" "[[(''d'', Value Null)]]"
      "[[(''a'', Value (Scalar ''1'')), (''b'', Value (Scalar ''2'')), (''c'', Value (Scalar ''5''))]]"]
  by (simp add: mergeObjects_def mergeInto_def)

section \<open>Create input types: prepared values and affected fields\<close>

subsection \<open>Prepared values\<close>

lemma coerceValue_list_not_null:
  "isListField f \<Longrightarrow> coerceValue R f v = Inr x \<Longrightarrow> x \<noteq> Null"
  by (cases f; cases v) (auto split: sum.splits if_splits)

lemma getProperties_shape:
  "getProperties R f v = Inr pairs \<Longrightarrow>
     \<exists>x. pairs = [(name (field f), x)] \<and>
         coerceValue R f (if v = Undefined \<and> hasDefaultValue (field f)
                          then defaultValue (field f) else v) = Inr x"
  by (auto split: sum.splits)

lemma applicableProperties_entries:
  "applicableProperties R fs value = Inr props \<Longrightarrow> (k, x) \<in> set props \<Longrightarrow>
     \<exists>g \<in> set fs. k = name (field g) \<and>
        getProperties R g (getProperty R value k) = Inr [(k, x)]"
proof (induction fs arbitrary: props)
  case Nil
  then show ?case by simp
next
  case (Cons f fs)
  show ?case
  proof (cases "hasProperty R (name (field f)) value \<or> appliesToMissingFields f")
    case False
    with Cons.prems have "applicableProperties R fs value = Inr props"
      by simp
    from Cons.IH[OF this Cons.prems(2)] show ?thesis by auto
  next
    case True
    with Cons.prems(1) obtain pairs rest where
      pairs: "getProperties R f (getProperty R value (name (field f))) = Inr pairs" and
      rest: "applicableProperties R fs value = Inr rest" and
      props: "props = pairs @ rest"
      by (auto simp del: getProperties.simps split: sum.splits)
    from getProperties_shape[OF pairs] obtain y where y: "pairs = [(name (field f), y)]"
      by blast
    show ?thesis
    proof (cases "(k, x) \<in> set rest")
      case True
      from Cons.IH[OF rest True] show ?thesis by auto
    next
      case False
      with Cons.prems(2) props y have "k = name (field f)" "x = y" by auto
      with pairs y show ?thesis by (auto simp del: getProperties.simps)
    qed
  qed
qed

lemma applicableProperties_contains:
  "applicableProperties R fs value = Inr props \<Longrightarrow> f \<in> set fs \<Longrightarrow>
     hasProperty R (name (field f)) value \<or> appliesToMissingFields f \<Longrightarrow>
     \<exists>x. getProperties R f (getProperty R value (name (field f))) = Inr [(name (field f), x)] \<and>
         (name (field f), x) \<in> set props"
proof (induction fs arbitrary: props)
  case Nil
  then show ?case by simp
next
  case (Cons g fs)
  show ?case
  proof (cases "hasProperty R (name (field g)) value \<or> appliesToMissingFields g")
    case False
    with Cons.prems have "applicableProperties R fs value = Inr props" "f \<in> set fs"
      by auto
    from Cons.IH[OF this Cons.prems(3)] show ?thesis .
  next
    case True
    with Cons.prems(1) obtain pairs rest where
      pairs: "getProperties R g (getProperty R value (name (field g))) = Inr pairs" and
      rest: "applicableProperties R fs value = Inr rest" and
      props: "props = pairs @ rest"
      by (auto simp del: getProperties.simps split: sum.splits)
    from getProperties_shape[OF pairs] obtain y where y: "pairs = [(name (field g), y)]"
      by blast
    show ?thesis
    proof (cases "f = g")
      case True
      with pairs y props show ?thesis by (auto simp del: getProperties.simps)
    next
      case False
      with Cons.prems have "f \<in> set fs" by simp
      from Cons.IH[OF rest this Cons.prems(3)] props show ?thesis by auto
    qed
  qed
qed

lemma foldl_setProperty_own:
  "k \<noteq> ''__proto__'' \<Longrightarrow>
     map_of (fst (foldl (setProperty R) (own, inherited) pairs)) k
       = (map_of own ++ map_of (rev pairs)) k"
proof (induction pairs arbitrary: own inherited)
  case Nil
  then show ?case by simp
next
  case (Cons p pairs)
  obtain k' v where p: "p = (k', v)" by (cases p)
  obtain own' inherited' where step: "setProperty R (own, inherited) (k', v) = (own', inherited')"
    by (cases "setProperty R (own, inherited) (k', v)")
  have own': "map_of own' k = (if k = k' then Some v else map_of own k)"
    using step Cons.prems by (auto simp: update_conv' split: if_splits)
  show ?case
    using Cons.IH[OF Cons.prems, of own' inherited'] p step own'
    by (auto simp: map_add_def split: option.splits)
qed

lemma foldl_setProperty_proto:
  "map_of own ''__proto__'' = None \<Longrightarrow>
     map_of (fst (foldl (setProperty R) (own, inherited) pairs)) ''__proto__'' = None"
proof (induction pairs arbitrary: own inherited)
  case Nil
  then show ?case by simp
next
  case (Cons p pairs)
  obtain k' v where p: "p = (k', v)" by (cases p)
  obtain own' inherited' where step: "setProperty R (own, inherited) (k', v) = (own', inherited')"
    by (cases "setProperty R (own, inherited) (k', v)")
  have "map_of own' ''__proto__'' = None"
    using step Cons.prems by (auto simp: update_conv' split: if_splits)
  from Cons.IH[OF this, of inherited'] p step show ?case by simp
qed

lemma own_fromPairs:
  "map_of (ownProperties (fromPairs R pairs)) k
     = (if k = ''__proto__'' then None else map_of (rev pairs) k)"
proof -
  let ?loop = "foldl (setProperty R) ([], objectPrototype R) pairs"
  have own: "ownProperties (fromPairs R pairs) = fst ?loop"
    by (cases ?loop) (simp add: fromPairs_def)
  show ?thesis
  proof (cases "k = ''__proto__''")
    case True
    have "map_of (fst ?loop) ''__proto__'' = None"
      by (rule foldl_setProperty_proto) simp
    with True own show ?thesis by simp
  next
    case False
    from foldl_setProperty_own[OF False, of R "[]" "objectPrototype R" pairs]
    have "map_of (fst ?loop) k = map_of (rev pairs) k" by simp
    with False own show ?thesis by simp
  qed
qed

lemma additional_values:
  "(k, x) \<in> set (getAdditionalProperties R cls) \<Longrightarrow> \<exists>s. x = StringValue s"
  by (cases cls) auto

lemma same_name_same_field:
  "distinct (map (\<lambda>g. name (field g)) fs) \<Longrightarrow> f \<in> set fs \<Longrightarrow> g \<in> set fs \<Longrightarrow>
     name (field g) = name (field f) \<Longrightarrow> g = f"
  by (meson distinct_map inj_onD)

lemma prepared_lookup:
  assumes names: "distinct (map (\<lambda>g. name (field g)) fs)"
      and member: "f \<in> set fs"
      and props: "applicableProperties R fs value = Inr props"
      and found: "map_of (rev props) (name (field f)) = Some x"
  shows "getProperties R f (getProperty R value (name (field f))) = Inr [(name (field f), x)]"
proof -
  from found have "(name (field f), x) \<in> set props"
    using map_of_SomeD by fastforce
  from applicableProperties_entries[OF props this] obtain g where
    g: "g \<in> set fs" "name (field f) = name (field g)"
       "getProperties R g (getProperty R value (name (field f))) = Inr [(name (field f), x)]"
    by blast
  with same_name_same_field[OF names member] have "g = f" by simp
  with g show ?thesis by simp
qed

lemma fieldNotNull_None: "fieldNotNull f None"
  by (cases f) simp_all

lemma fieldNotNull_string: "fieldNotNull f (Some (StringValue s))"
  by (cases f) simp_all

lemma fieldsNotNull_all:
  "(\<And>f. f \<in> set fs \<Longrightarrow> fieldNotNull f (map_of (ownProperties v) (name (field f)))) \<Longrightarrow>
     fieldsNotNull fs v"
  by (induction fs) simp_all

lemma distinctNested_member: "distinctNested fs \<Longrightarrow> f \<in> set fs \<Longrightarrow> distinctBelow f"
  by (induction fs) auto

lemma prepared_property:
  assumes names: "distinct (map (\<lambda>g. name (field g)) fs)"
      and member: "f \<in> set fs"
      and props: "applicableProperties R fs value = Inr props"
      and coerced: "\<And>v x. coerceValue R f v = Inr x \<Longrightarrow> fieldNotNull f (Some x)"
  shows "fieldNotNull f
           (map_of (ownProperties (fromPairs R (props @ getAdditionalProperties R cls)))
              (name (field f)))"
proof -
  let ?k = "name (field f)"
  let ?additional = "getAdditionalProperties R cls"
  show ?thesis
  proof (cases "?k = ''__proto__''")
    case True
    then show ?thesis by (simp add: own_fromPairs fieldNotNull_None)
  next
    case False
    then have lookup: "map_of (ownProperties (fromPairs R (props @ ?additional))) ?k =
        (case map_of (rev ?additional) ?k of
           Some x \<Rightarrow> Some x | None \<Rightarrow> map_of (rev props) ?k)"
      by (simp add: own_fromPairs map_add_def)
    show ?thesis
    proof (cases "map_of (rev ?additional) ?k")
      case (Some x)
      then have "(?k, x) \<in> set ?additional" using map_of_SomeD by fastforce
      then obtain s where "x = StringValue s" using additional_values by blast
      with Some lookup show ?thesis by (simp add: fieldNotNull_string)
    next
      case None
      show ?thesis
      proof (cases "map_of (rev props) ?k")
        case None
        with \<open>map_of (rev ?additional) ?k = None\<close> lookup show ?thesis
          by (simp add: fieldNotNull_None)
      next
        case (Some x)
        from prepared_lookup[OF names member props Some]
        have "getProperties R f (getProperty R value ?k) = Inr [(?k, x)]" .
        from getProperties_shape[OF this] obtain v where "coerceValue R f v = Inr x"
          by auto
        from coerced[OF this] Some \<open>map_of (rev ?additional) ?k = None\<close> lookup
        show ?thesis by simp
      qed
    qed
  qed
qed

lemma prepared_deep:
  "distinctBelow f \<longrightarrow> (\<forall>R v x. coerceValue R f v = Inr x \<longrightarrow> fieldNotNull f (Some x))"
  "distinctNames T \<longrightarrow>
     (\<forall>R v p. prepareValue R T v = Inr p \<longrightarrow> listsNotNull T p) \<and>
     (\<forall>R items r. prepareValues R T items = Inr r \<longrightarrow> itemsNotNull T r)"
proof (induction f and T)
  case (BasicCreateInputField F)
  show ?case by simp
next
  case (BasicListCreateInputField F)
  show ?case by (auto split: if_splits)
next
  case (ObjectCreateInputField F T)
  show ?case
  proof (intro impI allI)
    fix R v x
    assume dn: "distinctBelow (ObjectCreateInputField F T)"
      and c: "coerceValue R (ObjectCreateInputField F T) v = Inr x"
    show "fieldNotNull (ObjectCreateInputField F T) (Some x)"
    proof (cases "v = Undefined \<or> v = Null")
      case True
      with c have "x = Undefined \<or> x = Null" by auto
      then show ?thesis by auto
    next
      case False
      with c have "prepareValue R T v = Inr x" by simp
      with ObjectCreateInputField dn have "listsNotNull T x" by simp
      then show ?thesis by (cases x) simp_all
    qed
  qed
next
  case (ObjectListCreateInputField F T)
  show ?case
  proof (intro impI allI)
    fix R v x
    assume dn: "distinctBelow (ObjectListCreateInputField F T)"
      and c: "coerceValue R (ObjectListCreateInputField F T) v = Inr x"
    show "fieldNotNull (ObjectListCreateInputField F T) (Some x)"
    proof (cases v)
      case (Array items)
      with c obtain r where r: "prepareValues R T items = Inr r" "x = Array r"
        by (auto split: sum.splits)
      with ObjectListCreateInputField dn have "itemsNotNull T r" by simp
      with r show ?thesis by simp
    qed (use c in \<open>auto split: if_splits\<close>)
  qed
next
  case (CreateObjectInputType cls typeName fs)
  show ?case
  proof (intro impI)
    assume dn: "distinctNames (CreateObjectInputType cls typeName fs)"
    then have names: "distinct (map (\<lambda>g. name (field g)) fs)" and nested: "distinctNested fs"
      by simp_all
    have one: "listsNotNull (CreateObjectInputType cls typeName fs) p"
      if run: "prepareValue R (CreateObjectInputType cls typeName fs) v = Inr p" for R v p
    proof -
      from run obtain props where
        props: "applicableProperties R fs v = Inr props" and
        p: "p = fromPairs R (props @ getAdditionalProperties R cls)"
        by (auto split: if_splits sum.splits)
      have "fieldsNotNull fs p"
      proof (rule fieldsNotNull_all)
        fix f assume member: "f \<in> set fs"
        with nested have "distinctBelow f" by (rule distinctNested_member)
        with CreateObjectInputType member
        have coerced: "\<And>v x. coerceValue R f v = Inr x \<Longrightarrow> fieldNotNull f (Some x)"
          by blast
        from prepared_property[OF names member props coerced] p
        show "fieldNotNull f (map_of (ownProperties p) (name (field f)))" by simp
      qed
      then show ?thesis by simp
    qed
    have many: "itemsNotNull (CreateObjectInputType cls typeName fs) r"
      if run: "prepareValues R (CreateObjectInputType cls typeName fs) items = Inr r"
      for R items r
      using run
    proof (induction items arbitrary: r)
      case Nil
      then show ?case by simp
    next
      case (Cons item items)
      from Cons.prems obtain p rest where
        p: "prepareValue R (CreateObjectInputType cls typeName fs) item = Inr p" and
        rest: "prepareValues R (CreateObjectInputType cls typeName fs) items = Inr rest" and
        r: "r = p # rest"
        by (auto simp del: prepareValue.simps split: sum.splits)
      from one[OF p] Cons.IH[OF rest] r show ?case by (simp del: listsNotNull.simps)
    qed
    from one many
    show "(\<forall>R v p. prepareValue R (CreateObjectInputType cls typeName fs) v = Inr p
             \<longrightarrow> listsNotNull (CreateObjectInputType cls typeName fs) p) \<and>
          (\<forall>R items r. prepareValues R (CreateObjectInputType cls typeName fs) items = Inr r
             \<longrightarrow> itemsNotNull (CreateObjectInputType cls typeName fs) r)"
      by blast
  qed
qed

lemma getProperty_found:
  "getProperty R value k \<noteq> Undefined \<Longrightarrow> hasProperty R k value"
  by (auto simp: getProperty_def hasProperty_def split: option.splits
      dest!: map_of_SomeD intro: rev_image_eqI)

text \<open>
  Claim C9. \<open>getProperties\<close> of a list-valued field turns \<open>null\<close> into the empty list. The
  value prepared for a type whose field names are distinct, and distinct in every nested
  type, holds \<open>null\<close> under no list-valued field at any depth: not at the top level, not in
  the object prepared for an object field, not in an item prepared for an object-list
  field. And when the input gives \<open>null\<close> for a list-valued field of the type, the prepared
  value holds the empty list under that name (the name not being one of the additional
  properties, nor \<open>__proto__\<close>, which \<open>fromPairs\<close> assigns to the prototype).
\<close>

theorem prepareValue_list_field_not_null:
  "(isListField f \<longrightarrow> getProperties R f Null = Inr [(name (field f), Array [])])
   \<and> (distinctNames T \<and> prepareValue R T value = Inr prepared \<longrightarrow> listsNotNull T prepared)
   \<and> (isListField f \<and> f \<in> set fs \<and> distinct (map (\<lambda>g. name (field g)) fs) \<and>
        prepareValue R (CreateObjectInputType cls typeName fs) input = Inr result \<and>
        getProperty R input (name (field f)) = Null \<and>
        name (field f) \<notin> fst ` set (getAdditionalProperties R cls) \<and>
        name (field f) \<noteq> ''__proto__''
        \<longrightarrow> map_of (ownProperties result) (name (field f)) = Some (Array []))"
proof (intro conjI impI)
  assume "isListField f"
  then show "getProperties R f Null = Inr [(name (field f), Array [])]"
    by (cases f) auto
next
  assume "distinctNames T \<and> prepareValue R T value = Inr prepared"
  with prepared_deep(2)[of T] show "listsNotNull T prepared" by blast
next
  let ?k = "name (field f)"
  let ?additional = "getAdditionalProperties R cls"
  assume h: "isListField f \<and> f \<in> set fs \<and> distinct (map (\<lambda>g. name (field g)) fs) \<and>
        prepareValue R (CreateObjectInputType cls typeName fs) input = Inr result \<and>
        getProperty R input ?k = Null \<and> ?k \<notin> fst ` set ?additional \<and> ?k \<noteq> ''__proto__''"
  then have list: "isListField f" and member: "f \<in> set fs"
    and names: "distinct (map (\<lambda>g. name (field g)) fs)"
    and explicit: "getProperty R input ?k = Null" by simp_all
  from list have coerced: "getProperties R f Null = Inr [(?k, Array [])]"
    by (cases f) auto
  from h obtain props where
    props: "applicableProperties R fs input = Inr props" and
    result: "result = fromPairs R (props @ ?additional)"
    by (auto split: if_splits sum.splits)
  have "map_of (rev ?additional) ?k = None"
    using h by (simp add: map_of_eq_None_iff)
  with h have lookup: "map_of (ownProperties result) ?k = map_of (rev props) ?k"
    by (simp add: result own_fromPairs map_add_def)
  from explicit have "hasProperty R ?k input" by (intro getProperty_found) simp
  with applicableProperties_contains[OF props member] explicit coerced
  have inProps: "(?k, Array []) \<in> set props"
    by (auto simp del: getProperties.simps)
  then have "?k \<in> fst ` set (rev props)" by force
  then obtain x where x: "map_of (rev props) ?k = Some x"
    by (meson map_of_eq_None_iff not_None_eq)
  from prepared_lookup[OF names member props x] explicit coerced
  have "x = Array []" by (simp del: getProperties.simps)
  with x lookup show "map_of (ownProperties result) ?k = Some (Array [])" by simp
qed

text \<open>
  The theorem at work on \<open>heroWithNulls\<close>: the \<open>null\<close> under \<open>nickNames\<close> and the \<open>null\<close>
  under \<open>tags\<close> of the one skill are both prepared as empty lists.
\<close>

theorem prepareValue_list_field_not_null_witness:
  "getProperties sampleRuntime (BasicListCreateInputField nickNamesField) Null
     = Inr [(''nickNames'', Array [])]
   \<and> distinctNames createHeroInput
   \<and> prepareValue sampleRuntime createHeroInput heroWithNulls
       = Inr (objectLiteral
                [(''name'', StringValue ''Batman''), (''age'', Scalar ''42''),
                 (''nickNames'', Array []),
                 (''skills'', Array [objectLiteral [(''description'', StringValue ''flying''),
                                                     (''tags'', Array [])]]),
                 (''createdAt'', StringValue ''2018-05-01T12:00:00.000Z''),
                 (''updatedAt'', StringValue ''2018-05-01T12:00:00.000Z'')])
   \<and> listsNotNull createHeroInput
         (objectLiteral
                [(''name'', StringValue ''Batman''), (''age'', Scalar ''42''),
                 (''nickNames'', Array []),
                 (''skills'', Array [objectLiteral [(''description'', StringValue ''flying''),
                                                     (''tags'', Array [])]]),
                 (''createdAt'', StringValue ''2018-05-01T12:00:00.000Z''),
                 (''updatedAt'', StringValue ''2018-05-01T12:00:00.000Z'')])
   \<and> getProperty sampleRuntime heroWithNulls ''nickNames'' = Null
   \<and> map_of (ownProperties
         (objectLiteral
                [(''name'', StringValue ''Batman''), (''age'', Scalar ''42''),
                 (''nickNames'', Array []),
                 (''skills'', Array [objectLiteral [(''description'', StringValue ''flying''),
                                                     (''tags'', Array [])]]),
                 (''createdAt'', StringValue ''2018-05-01T12:00:00.000Z''),
                 (''updatedAt'', StringValue ''2018-05-01T12:00:00.000Z'')])) ''nickNames''
       = Some (Array [])"
proof -
  let ?prepared = "objectLiteral
                [(''name'', StringValue ''Batman''), (''age'', Scalar ''42''),
                 (''nickNames'', Array []),
                 (''skills'', Array [objectLiteral [(''description'', StringValue ''flying''),
                                                     (''tags'', Array [])]]),
                 (''createdAt'', StringValue ''2018-05-01T12:00:00.000Z''),
                 (''updatedAt'', StringValue ''2018-05-01T12:00:00.000Z'')]"
  have run: "prepareValue sampleRuntime
      (CreateObjectInputType CreateRootEntityInput ''CreateHeroInput'' heroFields) heroWithNulls
      = Inr ?prepared"
    by (simp add: hero_defs heroWithNulls_def property_defs)
  have names: "distinctNames
      (CreateObjectInputType CreateRootEntityInput ''CreateHeroInput'' heroFields)"
    by (simp add: hero_defs)
  have member: "BasicListCreateInputField nickNamesField \<in> set heroFields"
    by (simp add: heroFields_def)
  have given: "getProperty sampleRuntime heroWithNulls ''nickNames'' = Null"
    by (simp add: hero_defs heroWithNulls_def property_defs)
  from prepareValue_list_field_not_null
         [of "BasicListCreateInputField nickNamesField" sampleRuntime
             "CreateObjectInputType CreateRootEntityInput ''CreateHeroInput'' heroFields"
             heroWithNulls "?prepared" heroFields CreateRootEntityInput "''CreateHeroInput''"
             heroWithNulls "?prepared"]
       run names member given
  show ?thesis
    by (simp add: createHeroInput_def nickNamesField_def sampleRuntime_def)
qed

subsection \<open>Affected fields\<close>











end
